theory Spec2Isabelle
  imports Complex_Main
begin

section \<open>Tensors\<close>

text \<open>
  The notebook \<^verbatim>\<open>attention_mechanism_and_transformer.ipynb\<close> builds a Transformer from
  primitive tensor operations of PyTorch. Every tensor it handles has rank 3,
  \<open>(batch, sequence_length, feature_dim)\<close>. A tensor is modelled by its three sizes
  (\<^verbatim>\<open>t.size(0)\<close>, \<^verbatim>\<open>t.size(1)\<close>, \<^verbatim>\<open>t.size(2)\<close>, any of which may be zero) and its
  entries; only the entries inside the sizes are data. Floating-point values are idealised
  as real numbers: there is no rounding, no overflow and no NaN.
\<close>

record tensor =
  size0 :: nat
  size1 :: nat
  size2 :: nat
  elem :: "nat \<Rightarrow> nat \<Rightarrow> nat \<Rightarrow> real"

definition shape :: "tensor \<Rightarrow> nat \<times> nat \<times> nat" where
  "shape t = (size0 t, size1 t, size2 t)"

text \<open>Two tensors hold the same values: same sizes, same entries inside them.\<close>

definition same_values :: "tensor \<Rightarrow> tensor \<Rightarrow> bool" where
  "same_values x y \<longleftrightarrow>
     shape x = shape y \<and>
     (\<forall>b<size0 x. \<forall>i<size1 x. \<forall>j<size2 x. elem x b i j = elem y b i j)"

text \<open>The exceptions the code can raise; PyTorch reports a shape mismatch as RuntimeError.\<close>

datatype error = RuntimeError | ZeroDivisionError | ValueError | IndexError | TypeError

section \<open>Positional encoding\<close>

text \<open>
  \<^verbatim>\<open>x ** y\<close> on float tensors, for a base \<open>x \<ge> 0\<close> and an exponent \<open>y \<ge> 0\<close> (the only
  ones \<^verbatim>\<open>position_encoding\<close> produces): IEEE \<^verbatim>\<open>pow\<close> gives 1 for a zero exponent,
  also at base 0, where \<open>0 powr 0 = 0\<close> in HOL.
\<close>

definition float_pow :: "real \<Rightarrow> real \<Rightarrow> real" where
  "float_pow x y = (if y = 0 then 1 else x powr y)"

text \<open>
  \<^verbatim>\<open>
  def position_encoding(seq_len, dim_model, device=torch.device("cpu")) -> Tensor:
      pos = torch.arange(seq_len, dtype=torch.float, device=device).reshape(1, -1, 1)
      dim = torch.arange(dim_model, dtype=torch.float, device=device).reshape(1, 1, -1)
      phase = (pos / 1e4) ** (dim // dim_model)
      return torch.where(dim.long() % 2 == 0, torch.sin(phase), torch.cos(phase))
  \<close>
  \<^verbatim>\<open>dim // dim_model\<close> is the floor division of a float tensor by an integer; the
  channel index \<^verbatim>\<open>dim\<close> is written \<open>ch\<close> here.
\<close>

definition phase :: "nat \<Rightarrow> nat \<Rightarrow> nat \<Rightarrow> real" where
  "phase dim_model pos ch =
     float_pow (real pos / 10000) (of_int \<lfloor>real ch / real dim_model\<rfloor>)"

definition position_encoding :: "nat \<Rightarrow> nat \<Rightarrow> tensor" where
  "position_encoding seq_len dim_model =
     \<lparr> size0 = 1, size1 = seq_len, size2 = dim_model,
       elem = (\<lambda>b pos ch.
         if ch mod 2 = 0 then sin (phase dim_model pos ch)
         else cos (phase dim_model pos ch)) \<rparr>"

text \<open>
  The encoding as the notebook's text and the specification give it:
  \<open>PE(pos, 2i) = sin (pos / 10000^(2i/d_model))\<close> and
  \<open>PE(pos, 2i+1) = cos (pos / 10000^(2i/d_model))\<close>.
\<close>

definition position_encoding_spec :: "nat \<Rightarrow> nat \<Rightarrow> tensor" where
  "position_encoding_spec seq_len dim_model =
     \<lparr> size0 = 1, size1 = seq_len, size2 = dim_model,
       elem = (\<lambda>b pos i.
         if i mod 2 = 0
         then sin (real pos / 10000 powr (2 * real (i div 2) / real dim_model))
         else cos (real pos / 10000 powr (2 * real (i div 2) / real dim_model))) \<rparr>"

section \<open>Scaled dot-product attention\<close>

text \<open>\<^verbatim>\<open>t.transpose(1, 2)\<close> swaps the last two axes.\<close>

definition transpose12 :: "tensor \<Rightarrow> tensor" where
  "transpose12 t =
     \<lparr> size0 = size0 t, size1 = size2 t, size2 = size1 t,
       elem = (\<lambda>b i j. elem t b j i) \<rparr>"

text \<open>
  \<^verbatim>\<open>x.bmm(y)\<close>, the batched matrix product: \<open>(b, n, m)\<close> times \<open>(b, m, p)\<close>. PyTorch
  raises unless the batch sizes agree and the inner sizes agree; it does not broadcast.
\<close>

definition bmm :: "tensor \<Rightarrow> tensor \<Rightarrow> error + tensor" where
  "bmm x y =
     (if size0 x = size0 y \<and> size2 x = size1 y
      then Inr \<lparr> size0 = size0 x, size1 = size1 x, size2 = size2 y,
                 elem = (\<lambda>b i j. \<Sum>k<size2 x. elem x b i k * elem y b k j) \<rparr>
      else Inl RuntimeError)"

text \<open>\<^verbatim>\<open>t / scale\<close> for a Python float \<^verbatim>\<open>scale\<close>.\<close>

definition div_scalar :: "tensor \<Rightarrow> real \<Rightarrow> tensor" where
  "div_scalar t scale = t\<lparr> elem := (\<lambda>b i j. elem t b i j / scale) \<rparr>"

text \<open>\<^verbatim>\<open>f.softmax(t, dim=-1)\<close>: each row along the last axis is normalised.\<close>

definition softmax :: "tensor \<Rightarrow> tensor" where
  "softmax t =
     t\<lparr> elem := (\<lambda>b i j. exp (elem t b i j) / (\<Sum>k<size2 t. exp (elem t b i k))) \<rparr>"

text \<open>The sum of one row along the last axis.\<close>

definition row_sum :: "tensor \<Rightarrow> nat \<Rightarrow> nat \<Rightarrow> real" where
  "row_sum t b i = (\<Sum>j<size2 t. elem t b i j)"

text \<open>
  \<^verbatim>\<open>
  def scaled_dot_product_attention(query, key, value) -> Tensor:
      temp = query.bmm(key.transpose(1, 2))
      scale = query.size(-1) ** 0.5
      softmax = f.softmax(temp / scale, dim=-1)
      return softmax.bmm(value)
  \<close>
  \<open>attention_weights\<close> is the value of the local variable \<^verbatim>\<open>softmax\<close>, the attention
  weight matrix. With \<^verbatim>\<open>query.size(-1) = 0\<close> the float division is by zero and yields
  NaN, which the real numbers do not have: the numeric statements below are made for
  \<open>dk \<ge> 1\<close> only.
\<close>

definition attention_weights :: "tensor \<Rightarrow> tensor \<Rightarrow> error + tensor" where
  "attention_weights query key =
     (case bmm query (transpose12 key) of
        Inl e \<Rightarrow> Inl e
      | Inr temp \<Rightarrow>
          let scale = sqrt (real (size2 query))
          in Inr (softmax (div_scalar temp scale)))"

definition scaled_dot_product_attention :: "tensor \<Rightarrow> tensor \<Rightarrow> tensor \<Rightarrow> error + tensor" where
  "scaled_dot_product_attention query key val =
     (case attention_weights query key of
        Inl e \<Rightarrow> Inl e
      | Inr softmax_w \<Rightarrow> bmm softmax_w val)"

text \<open>
  The attention of the specification, entry by entry: the raw score of query row \<open>i\<close>
  against key row \<open>j\<close> is their inner product; the weight is the softmax over the key
  axis of the scores divided by \<open>sqrt dk\<close>; the output is the weighted sum of value rows.
\<close>

definition score :: "tensor \<Rightarrow> tensor \<Rightarrow> nat \<Rightarrow> nat \<Rightarrow> nat \<Rightarrow> real" where
  "score q k b i j = (\<Sum>c<size2 q. elem q b i c * elem k b j c)"

definition weight_spec :: "tensor \<Rightarrow> tensor \<Rightarrow> nat \<Rightarrow> nat \<Rightarrow> nat \<Rightarrow> real" where
  "weight_spec q k b i j =
     exp (score q k b i j / sqrt (real (size2 q)))
       / (\<Sum>j'<size1 k. exp (score q k b i j' / sqrt (real (size2 q))))"

definition attention_spec :: "tensor \<Rightarrow> tensor \<Rightarrow> tensor \<Rightarrow> nat \<Rightarrow> nat \<Rightarrow> nat \<Rightarrow> real" where
  "attention_spec q k v b i c = (\<Sum>j<size1 k. weight_spec q k b i j * elem v b j c)"

text \<open>A tensor of the given sizes with every entry equal to one value.\<close>

definition full :: "nat \<Rightarrow> nat \<Rightarrow> nat \<Rightarrow> real \<Rightarrow> tensor" where
  "full b n m x = \<lparr> size0 = b, size1 = n, size2 = m, elem = (\<lambda>_ _ _. x) \<rparr>"

section \<open>Elementwise operations\<close>

text \<open>
  \<^verbatim>\<open>x + y\<close> broadcasts: along each axis the sizes must be equal or one of them 1, and an
  operand of size 1 is read at index 0. PyTorch raises otherwise.
\<close>

definition bdim :: "nat \<Rightarrow> nat \<Rightarrow> nat option" where
  "bdim m n = (if m = n then Some m else if m = 1 then Some n else if n = 1 then Some m else None)"

definition bidx :: "nat \<Rightarrow> nat \<Rightarrow> nat" where
  "bidx m i = (if m = 1 then 0 else i)"

definition add :: "tensor \<Rightarrow> tensor \<Rightarrow> error + tensor" where
  "add x y =
     (case (bdim (size0 x) (size0 y), bdim (size1 x) (size1 y), bdim (size2 x) (size2 y)) of
        (Some b, Some n, Some m) \<Rightarrow>
          Inr \<lparr> size0 = b, size1 = n, size2 = m,
                elem = (\<lambda>i j k.
                  elem x (bidx (size0 x) i) (bidx (size1 x) j) (bidx (size2 x) k)
                  + elem y (bidx (size0 y) i) (bidx (size1 y) j) (bidx (size2 y) k)) \<rparr>
      | _ \<Rightarrow> Inl RuntimeError)"

text \<open>
  \<^verbatim>\<open>x += y\<close> writes the sum into the storage of \<^verbatim>\<open>x\<close>: the broadcast result must have
  the shape of \<^verbatim>\<open>x\<close>. The value returned is the new content of the object \<^verbatim>\<open>x\<close>.
\<close>

definition iadd :: "tensor \<Rightarrow> tensor \<Rightarrow> error + tensor" where
  "iadd x y =
     (case add x y of
        Inl e \<Rightarrow> Inl e
      | Inr r \<Rightarrow> if shape r = shape x then Inr r else Inl RuntimeError)"

definition relu :: "tensor \<Rightarrow> tensor" where
  "relu t = t\<lparr> elem := (\<lambda>b i j. max 0 (elem t b i j)) \<rparr>"

text \<open>
  \<^verbatim>\<open>torch.cat(ts, dim=-1)\<close>: the tensors are laid side by side along the last axis; the
  other two sizes must agree (RuntimeError otherwise), and the list must not be empty
  (ValueError).
\<close>

definition cat2 :: "tensor \<Rightarrow> tensor \<Rightarrow> error + tensor" where
  "cat2 x y =
     (if size0 x = size0 y \<and> size1 x = size1 y
      then Inr \<lparr> size0 = size0 x, size1 = size1 x, size2 = size2 x + size2 y,
                 elem = (\<lambda>b i j. if j < size2 x then elem x b i j
                                  else elem y b i (j - size2 x)) \<rparr>
      else Inl RuntimeError)"

fun cat :: "tensor list \<Rightarrow> error + tensor" where
  "cat [] = Inl ValueError"
| "cat [t] = Inr t"
| "cat (t # ts) = (case cat ts of Inl e \<Rightarrow> Inl e | Inr u \<Rightarrow> cat2 t u)"

text \<open>A list comprehension whose body may raise: the first exception ends it.\<close>

fun collect :: "(error + 'a) list \<Rightarrow> error + 'a list" where
  "collect [] = Inr []"
| "collect (Inl e # rest) = Inl e"
| "collect (Inr x # rest) = (case collect rest of Inl e \<Rightarrow> Inl e | Inr xs \<Rightarrow> Inr (x # xs))"

section \<open>Library modules: Linear, LayerNorm, Dropout\<close>

text \<open>
  The initial values of the trainable parameters are drawn at random by PyTorch. The model
  takes them as an argument: a family of (weight, bias) pairs indexed by the path of the
  module in the module tree.
\<close>

type_synonym params = "nat list \<Rightarrow> (nat \<Rightarrow> nat \<Rightarrow> real) \<times> (nat \<Rightarrow> real)"

definition child :: "nat \<Rightarrow> (nat list \<Rightarrow> 'a) \<Rightarrow> (nat list \<Rightarrow> 'a)" where
  "child i ps = (\<lambda>path. ps (i # path))"

text \<open>\<^verbatim>\<open>nn.Linear(in_features, out_features)\<close>: \<open>y = x W\<^sup>T + b\<close> on the last axis.\<close>

record Linear =
  in_features :: nat
  out_features :: nat
  weight :: "nat \<Rightarrow> nat \<Rightarrow> real"
  bias :: "nat \<Rightarrow> real"

definition Linear_init :: "nat \<Rightarrow> nat \<Rightarrow> params \<Rightarrow> Linear" where
  "Linear_init n_in n_out ps =
     \<lparr> in_features = n_in, out_features = n_out, weight = fst (ps []), bias = snd (ps []) \<rparr>"

definition Linear_forward :: "Linear \<Rightarrow> tensor \<Rightarrow> error + tensor" where
  "Linear_forward l x =
     (if size2 x = in_features l
      then Inr \<lparr> size0 = size0 x, size1 = size1 x, size2 = out_features l,
                 elem = (\<lambda>b i j. (\<Sum>k<in_features l. elem x b i k * weight l j k) + bias l j) \<rparr>
      else Inl RuntimeError)"

text \<open>
  \<^verbatim>\<open>nn.LayerNorm(dimension)\<close>: each position's feature vector is brought to zero mean and
  unit (biased) variance, then scaled and shifted. It starts with weight 1, bias 0 and
  \<open>eps = 1e-5\<close>.
\<close>

record LayerNorm =
  normalized_shape :: nat
  ln_weight :: "nat \<Rightarrow> real"
  ln_bias :: "nat \<Rightarrow> real"
  ln_eps :: real

definition LayerNorm_init :: "nat \<Rightarrow> LayerNorm" where
  "LayerNorm_init dimension =
     \<lparr> normalized_shape = dimension, ln_weight = (\<lambda>_. 1), ln_bias = (\<lambda>_. 0),
       ln_eps = 1 / 100000 \<rparr>"

definition mean :: "tensor \<Rightarrow> nat \<Rightarrow> nat \<Rightarrow> real" where
  "mean x b i = (\<Sum>k<size2 x. elem x b i k) / real (size2 x)"

definition var :: "tensor \<Rightarrow> nat \<Rightarrow> nat \<Rightarrow> real" where
  "var x b i = (\<Sum>k<size2 x. (elem x b i k - mean x b i)\<^sup>2) / real (size2 x)"

definition LayerNorm_forward :: "LayerNorm \<Rightarrow> tensor \<Rightarrow> error + tensor" where
  "LayerNorm_forward n x =
     (if size2 x = normalized_shape n
      then Inr (x\<lparr> elem := (\<lambda>b i j.
                  (elem x b i j - mean x b i) / sqrt (var x b i + ln_eps n) * ln_weight n j
                  + ln_bias n j) \<rparr>)
      else Inl RuntimeError)"

text \<open>
  \<^verbatim>\<open>nn.Dropout(p)\<close> rejects a rate outside \<open>[0, 1]\<close>. In training mode each entry is kept
  with probability \<open>1 - p\<close> and scaled by \<open>1 / (1 - p)\<close>, otherwise zeroed: with \<open>p = 0\<close>
  every entry is kept, with \<open>p = 1\<close> none. In evaluation mode the input is returned as it is. A call context carries the mode (set for the whole
  model by \<^verbatim>\<open>model.train()\<close> / \<^verbatim>\<open>model.eval()\<close>) and the random keep-masks of the call,
  indexed by the path of the dropout's owner in the module tree.
\<close>

record Dropout =
  drop_p :: real

definition Dropout_init :: "real \<Rightarrow> error + Dropout" where
  "Dropout_init rate = (if rate < 0 \<or> 1 < rate then Inl ValueError else Inr \<lparr> drop_p = rate \<rparr>)"

record call_ctx =
  training :: bool
  draws :: "nat list \<Rightarrow> nat \<Rightarrow> nat \<Rightarrow> nat \<Rightarrow> bool"

definition sub :: "nat \<Rightarrow> call_ctx \<Rightarrow> call_ctx" where
  "sub i ctx = ctx\<lparr> draws := child i (draws ctx) \<rparr>"

definition Dropout_forward :: "Dropout \<Rightarrow> call_ctx \<Rightarrow> tensor \<Rightarrow> tensor" where
  "Dropout_forward d ctx x =
     (if training ctx
      then x\<lparr> elem := (\<lambda>b i j.
                if drop_p d = 1 then 0
                else if drop_p d = 0 \<or> draws ctx [] b i j then elem x b i j / (1 - drop_p d)
                else 0) \<rparr>
      else x)"

section \<open>Attention head and multi-head attention\<close>

text \<open>
  \<^verbatim>\<open>
  class AttentionHead(nn.Module):
      def __init__(self, dim_in, dim_k, dim_v):
          self.q = nn.Linear(dim_in, dim_k)
          self.k = nn.Linear(dim_in, dim_k)
          self.v = nn.Linear(dim_in, dim_v)
      def forward(self, query, key, value):
          return scaled_dot_product_attention(self.q(query), self.k(key), self.v(value))
  \<close>
\<close>

record AttentionHead =
  head_q :: Linear
  head_k :: Linear
  head_v :: Linear

definition AttentionHead_init :: "nat \<Rightarrow> nat \<Rightarrow> nat \<Rightarrow> params \<Rightarrow> AttentionHead" where
  "AttentionHead_init dim_in dim_k dim_v ps =
     \<lparr> head_q = Linear_init dim_in dim_k (child 0 ps),
       head_k = Linear_init dim_in dim_k (child 1 ps),
       head_v = Linear_init dim_in dim_v (child 2 ps) \<rparr>"

definition AttentionHead_forward ::
  "AttentionHead \<Rightarrow> tensor \<Rightarrow> tensor \<Rightarrow> tensor \<Rightarrow> error + tensor" where
  "AttentionHead_forward h query key val =
     (case Linear_forward (head_q h) query of
        Inl e \<Rightarrow> Inl e
      | Inr q \<Rightarrow>
          (case Linear_forward (head_k h) key of
             Inl e \<Rightarrow> Inl e
           | Inr k \<Rightarrow>
               (case Linear_forward (head_v h) val of
                  Inl e \<Rightarrow> Inl e
                | Inr v \<Rightarrow> scaled_dot_product_attention q k v)))"

text \<open>
  \<^verbatim>\<open>
  class MultiHeadAttention(nn.Module):
      def __init__(self, num_heads, dim_in, dim_k, dim_v):
          self.heads = nn.ModuleList(
              [AttentionHead(dim_in, dim_k, dim_v) for _ in range(num_heads)])
          self.linear = nn.Linear(num_heads * dim_v, dim_in)
      def forward(self, query, key, value):
          return self.linear(
              torch.cat([h(query, key, value) for h in self.heads], dim=-1))
  \<close>
\<close>

record MultiHeadAttention =
  mha_heads :: "AttentionHead list"
  mha_linear :: Linear

definition MultiHeadAttention_init ::
  "nat \<Rightarrow> nat \<Rightarrow> nat \<Rightarrow> nat \<Rightarrow> params \<Rightarrow> MultiHeadAttention" where
  "MultiHeadAttention_init num_heads dim_in dim_k dim_v ps =
     \<lparr> mha_heads = map (\<lambda>i. AttentionHead_init dim_in dim_k dim_v (child i ps)) [0..<num_heads],
       mha_linear = Linear_init (num_heads * dim_v) dim_in (child num_heads ps) \<rparr>"

definition MultiHeadAttention_forward ::
  "MultiHeadAttention \<Rightarrow> tensor \<Rightarrow> tensor \<Rightarrow> tensor \<Rightarrow> error + tensor" where
  "MultiHeadAttention_forward m query key val =
     (case collect (map (\<lambda>h. AttentionHead_forward h query key val) (mha_heads m)) of
        Inl e \<Rightarrow> Inl e
      | Inr outs \<Rightarrow>
          (case cat outs of
             Inl e \<Rightarrow> Inl e
           | Inr c \<Rightarrow> Linear_forward (mha_linear m) c))"

section \<open>Feed-forward sublayer\<close>

text \<open>
  \<^verbatim>\<open>
  def feed_forward(dim_input=512, dim_feedforward=2048) -> nn.Module:
      return nn.Sequential(
          nn.Linear(dim_input, dim_feedforward), nn.ReLU(),
          nn.Linear(dim_feedforward, dim_input))
  \<close>
\<close>

record FeedForward =
  ff_linear1 :: Linear
  ff_linear2 :: Linear

definition feed_forward :: "nat \<Rightarrow> nat \<Rightarrow> params \<Rightarrow> FeedForward" where
  "feed_forward dim_input dim_feedforward ps =
     \<lparr> ff_linear1 = Linear_init dim_input dim_feedforward (child 0 ps),
       ff_linear2 = Linear_init dim_feedforward dim_input (child 2 ps) \<rparr>"

definition FeedForward_forward :: "FeedForward \<Rightarrow> tensor \<Rightarrow> error + tensor" where
  "FeedForward_forward f x =
     (case Linear_forward (ff_linear1 f) x of
        Inl e \<Rightarrow> Inl e
      | Inr h \<Rightarrow> Linear_forward (ff_linear2 f) (relu h))"

section \<open>Residual wrapper\<close>

text \<open>
  \<^verbatim>\<open>
  class Residual(nn.Module):
      def __init__(self, sublayer, dimension, dropout=0.1):
          self.sublayer = sublayer
          self.norm = nn.LayerNorm(dimension)
          self.dropout = nn.Dropout(dropout)
      def forward(self, *tensors):
          # Assume that the "value" tensor is given last, so we can compute the
          # residual.  This matches the signature of 'MultiHeadAttention'.
          return self.norm(tensors[-1] + self.dropout(self.sublayer(*tensors)))
  \<close>
  The sublayer is any module, called with the argument tuple. Python evaluates
  \<^verbatim>\<open>tensors[-1]\<close> first, which raises IndexError on an empty tuple. Calling a module with
  the wrong number of arguments raises TypeError.
\<close>

record Residual =
  res_sublayer :: "tensor list \<Rightarrow> error + tensor"
  res_norm :: LayerNorm
  res_dropout :: Dropout

definition Residual_init ::
  "(tensor list \<Rightarrow> error + tensor) \<Rightarrow> nat \<Rightarrow> real \<Rightarrow> error + Residual" where
  "Residual_init sublayer dimension rate =
     (case Dropout_init rate of
        Inl e \<Rightarrow> Inl e
      | Inr d \<Rightarrow>
          Inr \<lparr> res_sublayer = sublayer, res_norm = LayerNorm_init dimension, res_dropout = d \<rparr>)"

definition Residual_forward :: "Residual \<Rightarrow> call_ctx \<Rightarrow> tensor list \<Rightarrow> error + tensor" where
  "Residual_forward r ctx tensors =
     (if tensors = [] then Inl IndexError
      else
        (case res_sublayer r tensors of
           Inl e \<Rightarrow> Inl e
         | Inr s \<Rightarrow>
             (case add (last tensors) (Dropout_forward (res_dropout r) ctx s) of
                Inl e \<Rightarrow> Inl e
              | Inr a \<Rightarrow> LayerNorm_forward (res_norm r) a)))"

definition MultiHeadAttention_call :: "MultiHeadAttention \<Rightarrow> tensor list \<Rightarrow> error + tensor" where
  "MultiHeadAttention_call m tensors =
     (case tensors of
        [query, key, val] \<Rightarrow> MultiHeadAttention_forward m query key val
      | _ \<Rightarrow> Inl TypeError)"

definition FeedForward_call :: "FeedForward \<Rightarrow> tensor list \<Rightarrow> error + tensor" where
  "FeedForward_call f tensors =
     (case tensors of [x] \<Rightarrow> FeedForward_forward f x | _ \<Rightarrow> Inl TypeError)"

section \<open>Encoder\<close>

text \<open>
  \<^verbatim>\<open>
  class TransformerEncoderLayer(nn.Module):
      def __init__(self, dim_model=512, num_heads=6, dim_feedforward=2048, dropout=0.1):
          dim_k = dim_v = dim_model // num_heads
          self.attention = Residual(
              MultiHeadAttention(num_heads, dim_model, dim_k, dim_v),
              dimension=dim_model, dropout=dropout)
          self.feed_forward = Residual(
              feed_forward(dim_model, dim_feedforward),
              dimension=dim_model, dropout=dropout)
      def forward(self, src):
          src = self.attention(src, src, src)
          return self.feed_forward(src)
  \<close>
  Sizes are natural numbers. \<^verbatim>\<open>dim_model // num_heads\<close> raises ZeroDivisionError for
  \<^verbatim>\<open>num_heads = 0\<close>; nothing else is checked.
\<close>

record TransformerEncoderLayer =
  enc_attention :: Residual
  enc_feed_forward :: Residual

definition TransformerEncoderLayer_init ::
  "nat \<Rightarrow> nat \<Rightarrow> nat \<Rightarrow> real \<Rightarrow> params \<Rightarrow> error + TransformerEncoderLayer" where
  "TransformerEncoderLayer_init dim_model num_heads dim_feedforward rate ps =
     (if num_heads = 0 then Inl ZeroDivisionError
      else
        let dim_k = dim_model div num_heads; dim_v = dim_k
        in (case Residual_init
                   (MultiHeadAttention_call
                      (MultiHeadAttention_init num_heads dim_model dim_k dim_v (child 0 ps)))
                   dim_model rate of
              Inl e \<Rightarrow> Inl e
            | Inr a \<Rightarrow>
                (case Residual_init
                        (FeedForward_call (feed_forward dim_model dim_feedforward (child 1 ps)))
                        dim_model rate of
                   Inl e \<Rightarrow> Inl e
                 | Inr f \<Rightarrow> Inr \<lparr> enc_attention = a, enc_feed_forward = f \<rparr>)))"

definition TransformerEncoderLayer_forward ::
  "TransformerEncoderLayer \<Rightarrow> call_ctx \<Rightarrow> tensor \<Rightarrow> error + tensor" where
  "TransformerEncoderLayer_forward l ctx src =
     (case Residual_forward (enc_attention l) (sub 0 ctx) [src, src, src] of
        Inl e \<Rightarrow> Inl e
      | Inr src' \<Rightarrow> Residual_forward (enc_feed_forward l) (sub 1 ctx) [src'])"

text \<open>
  The caller's tensors are objects in a store; a forward pass receives their addresses. A
  tensor handed on inside the pass is either such an object or a temporary that the pass
  created and nothing else refers to.
\<close>

type_synonym addr = nat
type_synonym store = "addr \<Rightarrow> tensor"

datatype tensor_ref = Stored addr | Temp tensor

fun deref :: "store \<Rightarrow> tensor_ref \<Rightarrow> tensor" where
  "deref \<sigma> (Stored a) = \<sigma> a"
| "deref \<sigma> (Temp t) = t"

text \<open>
  \<^verbatim>\<open>
  class TransformerEncoder(nn.Module):
      def __init__(self, num_layers=6, dim_model=512, num_heads=8,
                   dim_feedforward=2048, dropout=0.1):
          self.layers = nn.ModuleList([
              TransformerEncoderLayer(dim_model, num_heads, dim_feedforward, dropout)
              for _ in range(num_layers)])
      def forward(self, src):
          seq_len, dimension = src.size(1), src.size(2)
          src += position_encoding(seq_len, dimension)
          for layer in self.layers:
              src = layer(src)
          return src
  \<close>
  \<^verbatim>\<open>src += ...\<close> writes into the caller's object; \<^verbatim>\<open>src = layer(src)\<close> only rebinds the
  local name. With no layers the object itself is returned.
\<close>

record TransformerEncoder =
  encoder_layers :: "TransformerEncoderLayer list"

definition TransformerEncoder_init ::
  "nat \<Rightarrow> nat \<Rightarrow> nat \<Rightarrow> nat \<Rightarrow> real \<Rightarrow> params \<Rightarrow> error + TransformerEncoder" where
  "TransformerEncoder_init num_layers dim_model num_heads dim_feedforward rate ps =
     (case collect (map (\<lambda>i. TransformerEncoderLayer_init dim_model num_heads dim_feedforward
                                 rate (child i ps)) [0..<num_layers]) of
        Inl e \<Rightarrow> Inl e
      | Inr ls \<Rightarrow> Inr \<lparr> encoder_layers = ls \<rparr>)"

fun encoder_loop ::
  "TransformerEncoderLayer list \<Rightarrow> nat \<Rightarrow> call_ctx \<Rightarrow> tensor \<Rightarrow> error + tensor" where
  "encoder_loop [] i ctx src = Inr src"
| "encoder_loop (layer # rest) i ctx src =
     (case TransformerEncoderLayer_forward layer (sub i ctx) src of
        Inl e \<Rightarrow> Inl e
      | Inr src' \<Rightarrow> encoder_loop rest (Suc i) ctx src')"

definition TransformerEncoder_forward ::
  "TransformerEncoder \<Rightarrow> call_ctx \<Rightarrow> store \<Rightarrow> addr \<Rightarrow> store \<times> (error + tensor_ref)" where
  "TransformerEncoder_forward enc ctx \<sigma> src =
     (let seq_len = size1 (\<sigma> src); dimension = size2 (\<sigma> src)
      in case iadd (\<sigma> src) (position_encoding seq_len dimension) of
           Inl e \<Rightarrow> (\<sigma>, Inl e)
         | Inr x \<Rightarrow>
             let \<sigma>' = \<sigma>(src := x)
             in if encoder_layers enc = [] then (\<sigma>', Inr (Stored src))
                else (\<sigma>', map_sum id Temp (encoder_loop (encoder_layers enc) 0 ctx x)))"

section \<open>Decoder\<close>

text \<open>
  \<^verbatim>\<open>
  class TransformerDecoderLayer(nn.Module):
      def __init__(self, dim_model=512, num_heads=6, dim_feedforward=2048, dropout=0.1):
          dim_k = dim_v = dim_model // num_heads
          self.attention_1 = Residual(
              MultiHeadAttention(num_heads, dim_model, dim_k, dim_v),
              dimension=dim_model, dropout=dropout)
          self.attention_2 = Residual(
              MultiHeadAttention(num_heads, dim_model, dim_k, dim_v),
              dimension=dim_model, dropout=dropout)
          self.feed_forward = Residual(
              feed_forward(dim_model, dim_feedforward),
              dimension=dim_model, dropout=dropout)
      def forward(self, tgt, memory):
          tgt = self.attention_1(tgt, tgt, tgt)
          tgt = self.attention_2(memory, memory, tgt)
          return self.feed_forward(tgt)
  \<close>
\<close>

record TransformerDecoderLayer =
  dec_attention_1 :: Residual
  dec_attention_2 :: Residual
  dec_feed_forward :: Residual

definition TransformerDecoderLayer_init ::
  "nat \<Rightarrow> nat \<Rightarrow> nat \<Rightarrow> real \<Rightarrow> params \<Rightarrow> error + TransformerDecoderLayer" where
  "TransformerDecoderLayer_init dim_model num_heads dim_feedforward rate ps =
     (if num_heads = 0 then Inl ZeroDivisionError
      else
        let dim_k = dim_model div num_heads; dim_v = dim_k
        in (case Residual_init
                   (MultiHeadAttention_call
                      (MultiHeadAttention_init num_heads dim_model dim_k dim_v (child 0 ps)))
                   dim_model rate of
              Inl e \<Rightarrow> Inl e
            | Inr a1 \<Rightarrow>
                (case Residual_init
                        (MultiHeadAttention_call
                           (MultiHeadAttention_init num_heads dim_model dim_k dim_v (child 1 ps)))
                        dim_model rate of
                   Inl e \<Rightarrow> Inl e
                 | Inr a2 \<Rightarrow>
                     (case Residual_init
                             (FeedForward_call
                                (feed_forward dim_model dim_feedforward (child 2 ps)))
                             dim_model rate of
                        Inl e \<Rightarrow> Inl e
                      | Inr f \<Rightarrow>
                          Inr \<lparr> dec_attention_1 = a1, dec_attention_2 = a2,
                                dec_feed_forward = f \<rparr>))))"

definition TransformerDecoderLayer_forward ::
  "TransformerDecoderLayer \<Rightarrow> call_ctx \<Rightarrow> tensor \<Rightarrow> tensor \<Rightarrow> error + tensor" where
  "TransformerDecoderLayer_forward l ctx tgt memory =
     (case Residual_forward (dec_attention_1 l) (sub 0 ctx) [tgt, tgt, tgt] of
        Inl e \<Rightarrow> Inl e
      | Inr tgt1 \<Rightarrow>
          (case Residual_forward (dec_attention_2 l) (sub 1 ctx) [memory, memory, tgt1] of
             Inl e \<Rightarrow> Inl e
           | Inr tgt2 \<Rightarrow> Residual_forward (dec_feed_forward l) (sub 2 ctx) [tgt2]))"

text \<open>
  The decoder layer of the specification: its second wrapper attends with keys and values
  from the encoder memory and queries from the self-attended target, which is also the
  residual base. The wrapper is given the base explicitly.
\<close>

definition Residual_forward_on ::
  "Residual \<Rightarrow> call_ctx \<Rightarrow> tensor \<Rightarrow> tensor list \<Rightarrow> error + tensor" where
  "Residual_forward_on r ctx base tensors =
     (case res_sublayer r tensors of
        Inl e \<Rightarrow> Inl e
      | Inr s \<Rightarrow>
          (case add base (Dropout_forward (res_dropout r) ctx s) of
             Inl e \<Rightarrow> Inl e
           | Inr a \<Rightarrow> LayerNorm_forward (res_norm r) a))"

definition TransformerDecoderLayer_forward_spec ::
  "TransformerDecoderLayer \<Rightarrow> call_ctx \<Rightarrow> tensor \<Rightarrow> tensor \<Rightarrow> error + tensor" where
  "TransformerDecoderLayer_forward_spec l ctx tgt memory =
     (case Residual_forward_on (dec_attention_1 l) (sub 0 ctx) tgt [tgt, tgt, tgt] of
        Inl e \<Rightarrow> Inl e
      | Inr tgt1 \<Rightarrow>
          (case Residual_forward_on (dec_attention_2 l) (sub 1 ctx) tgt1 [tgt1, memory, memory] of
             Inl e \<Rightarrow> Inl e
           | Inr tgt2 \<Rightarrow> Residual_forward_on (dec_feed_forward l) (sub 2 ctx) tgt2 [tgt2]))"

text \<open>
  \<^verbatim>\<open>
  class TransformerDecoder(nn.Module):
      def __init__(self, num_layers=6, dim_model=512, num_heads=8,
                   dim_feedforward=2048, dropout=0.1):
          self.layers = nn.ModuleList([
              TransformerDecoderLayer(dim_model, num_heads, dim_feedforward, dropout)
              for _ in range(num_layers)])
          self.linear = nn.Linear(dim_model, dim_model)
      def forward(self, tgt, memory):
          seq_len, dimension = tgt.size(1), tgt.size(2)
          tgt += position_encoding(seq_len, dimension)
          for layer in self.layers:
              tgt = layer(tgt, memory)
          return torch.softmax(self.linear(tgt), dim=-1)
  \<close>
  The memory is read after \<^verbatim>\<open>tgt += ...\<close>: when it is the same object as the target, the
  layers see the updated content.
\<close>

record TransformerDecoder =
  decoder_layers :: "TransformerDecoderLayer list"
  decoder_linear :: Linear

definition TransformerDecoder_init ::
  "nat \<Rightarrow> nat \<Rightarrow> nat \<Rightarrow> nat \<Rightarrow> real \<Rightarrow> params \<Rightarrow> error + TransformerDecoder" where
  "TransformerDecoder_init num_layers dim_model num_heads dim_feedforward rate ps =
     (case collect (map (\<lambda>i. TransformerDecoderLayer_init dim_model num_heads dim_feedforward
                                 rate (child i ps)) [0..<num_layers]) of
        Inl e \<Rightarrow> Inl e
      | Inr ls \<Rightarrow>
          Inr \<lparr> decoder_layers = ls,
                decoder_linear = Linear_init dim_model dim_model (child num_layers ps) \<rparr>)"

fun decoder_loop ::
  "TransformerDecoderLayer list \<Rightarrow> nat \<Rightarrow> call_ctx \<Rightarrow> tensor \<Rightarrow> tensor \<Rightarrow> error + tensor" where
  "decoder_loop [] i ctx tgt memory = Inr tgt"
| "decoder_loop (layer # rest) i ctx tgt memory =
     (case TransformerDecoderLayer_forward layer (sub i ctx) tgt memory of
        Inl e \<Rightarrow> Inl e
      | Inr tgt' \<Rightarrow> decoder_loop rest (Suc i) ctx tgt' memory)"

definition TransformerDecoder_forward ::
  "TransformerDecoder \<Rightarrow> call_ctx \<Rightarrow> store \<Rightarrow> addr \<Rightarrow> tensor_ref \<Rightarrow> store \<times> (error + tensor)" where
  "TransformerDecoder_forward dec ctx \<sigma> tgt memory =
     (let seq_len = size1 (\<sigma> tgt); dimension = size2 (\<sigma> tgt)
      in case iadd (\<sigma> tgt) (position_encoding seq_len dimension) of
           Inl e \<Rightarrow> (\<sigma>, Inl e)
         | Inr x \<Rightarrow>
             let \<sigma>' = \<sigma>(tgt := x)
             in (\<sigma>',
                 case decoder_loop (decoder_layers dec) 0 ctx x (deref \<sigma>' memory) of
                   Inl e \<Rightarrow> Inl e
                 | Inr t \<Rightarrow>
                     (case Linear_forward (decoder_linear dec) t of
                        Inl e \<Rightarrow> Inl e
                      | Inr y \<Rightarrow> Inr (softmax y))))"

section \<open>Transformer\<close>

text \<open>
  \<^verbatim>\<open>
  class Transformer(nn.Module):
      def __init__(self, num_encoder_layers=6, num_decoder_layers=6, dim_model=512,
                   num_heads=6, dim_feedforward=2048, dropout=0.1, activation=nn.ReLU()):
          self.encoder = TransformerEncoder(num_layers=num_encoder_layers, ...)
          self.decoder = TransformerDecoder(num_layers=num_decoder_layers, ...)
      def forward(self, src, tgt):
          return self.decoder(tgt, self.encoder(src))
  \<close>
  The \<^verbatim>\<open>activation\<close> argument is not used. The forward pass returns the final store with
  the result.
\<close>

record Transformer =
  tr_encoder :: TransformerEncoder
  tr_decoder :: TransformerDecoder

definition Transformer_init ::
  "nat \<Rightarrow> nat \<Rightarrow> nat \<Rightarrow> nat \<Rightarrow> nat \<Rightarrow> real \<Rightarrow> params \<Rightarrow> error + Transformer" where
  "Transformer_init num_encoder_layers num_decoder_layers dim_model num_heads dim_feedforward
       rate ps =
     (case TransformerEncoder_init num_encoder_layers dim_model num_heads dim_feedforward rate
             (child 0 ps) of
        Inl e \<Rightarrow> Inl e
      | Inr enc \<Rightarrow>
          (case TransformerDecoder_init num_decoder_layers dim_model num_heads dim_feedforward
                  rate (child 1 ps) of
             Inl e \<Rightarrow> Inl e
           | Inr dec \<Rightarrow> Inr \<lparr> tr_encoder = enc, tr_decoder = dec \<rparr>))"

definition Transformer_forward ::
  "Transformer \<Rightarrow> call_ctx \<Rightarrow> store \<Rightarrow> addr \<Rightarrow> addr \<Rightarrow> store \<times> (error + tensor)" where
  "Transformer_forward t ctx \<sigma> src tgt =
     (case TransformerEncoder_forward (tr_encoder t) (sub 0 ctx) \<sigma> src of
        (\<sigma>1, Inl e) \<Rightarrow> (\<sigma>1, Inl e)
      | (\<sigma>1, Inr memory) \<Rightarrow> TransformerDecoder_forward (tr_decoder t) (sub 1 ctx) \<sigma>1 tgt memory)"

text \<open>Parameters that are all zero, and a call context in evaluation mode.\<close>

definition zero_params :: params where
  "zero_params = (\<lambda>path. ((\<lambda>_ _. 0), (\<lambda>_. 0)))"

definition eval_ctx :: call_ctx where
  "eval_ctx = \<lparr> training = False, draws = (\<lambda>_ _ _ _. True) \<rparr>"

definition train_ctx :: call_ctx where
  "train_ctx = \<lparr> training = True, draws = (\<lambda>_ _ _ _. False) \<rparr>"

text \<open>A store holding a source tensor at address 0 and a target tensor at address 1.\<close>

definition store2 :: "tensor \<Rightarrow> tensor \<Rightarrow> store" where
  "store2 s t = (\<lambda>a. if a = 0 then s else t)"

text \<open>A Residual wrapper around a sublayer that returns an all-zero tensor.\<close>

definition zero_residual :: Residual where
  "zero_residual =
     \<lparr> res_sublayer = (\<lambda>ts. Inr (full 1 2 3 0)), res_norm = LayerNorm_init 3,
       res_dropout = \<lparr> drop_p = 1/10 \<rparr> \<rparr>"

text \<open>
  A caller that feeds two models the same two tensors in turn:
  \<^verbatim>\<open>out1 = model1(src, tgt); out2 = model2(src, tgt)\<close>. The second call starts in the store
  the first one left.
\<close>

definition forward_twice ::
  "Transformer \<Rightarrow> Transformer \<Rightarrow> call_ctx \<Rightarrow> store \<Rightarrow> addr \<Rightarrow> addr \<Rightarrow> error + tensor \<times> tensor" where
  "forward_twice t1 t2 ctx \<sigma> src tgt =
     (case Transformer_forward t1 ctx \<sigma> src tgt of
        (\<sigma>1, Inl e) \<Rightarrow> Inl e
      | (\<sigma>1, Inr out1) \<Rightarrow>
          (case Transformer_forward t2 ctx \<sigma>1 src tgt of
             (\<sigma>2, Inl e) \<Rightarrow> Inl e
           | (\<sigma>2, Inr out2) \<Rightarrow> Inr (out1, out2)))"

text \<open>
  Parameters that are zero everywhere except in the decoder's final projection (the only
  module at depth two of the module tree), whose weight copies channel 0 and drops the
  others.
\<close>

definition probe_params :: params where
  "probe_params =
     (\<lambda>path. if length path = 2
              then ((\<lambda>j k. if j = 0 \<and> k = 0 then 1 else 0), (\<lambda>_. 0))
              else ((\<lambda>_ _. 0), (\<lambda>_. 0)))"

text \<open>A tensor of shape \<open>(1, 1, 2)\<close>: one position with the two channels \<open>[a, b]\<close>.\<close>

definition one_position :: "real \<Rightarrow> real \<Rightarrow> tensor" where
  "one_position a b =
     \<lparr> size0 = 1, size1 = 1, size2 = 2, elem = (\<lambda>_ _ j. if j = 0 then a else b) \<rparr>"

text \<open>
  On two channels, layer normalisation with its initial parameters sends a position's
  vector \<open>[a, b]\<close> to \<open>[squash u, - squash u]\<close> for \<open>u = (a - b) / 2\<close>, the \<open>spread\<close> of
  the vector; a softmax over \<open>[g, 0]\<close> has first entry \<open>logistic g\<close>.
\<close>

definition spread :: "tensor \<Rightarrow> real" where
  "spread x = (elem x 0 0 0 - elem x 0 0 1) / 2"

definition squash :: "real \<Rightarrow> real" where
  "squash u = u / sqrt (u\<^sup>2 + 1 / 100000)"

definition logistic :: "real \<Rightarrow> real" where
  "logistic g = exp g / (exp g + 1)"

section \<open>Properties of the positional encoding\<close>

lemma phase_in_range: "ch < dim_model \<Longrightarrow> phase dim_model pos ch = 1"
proof -
  assume lt: "ch < dim_model"
  then have "0 \<le> real ch / real dim_model" "real ch / real dim_model < 1"
    by simp_all
  then have "\<lfloor>real ch / real dim_model\<rfloor> = 0"
    by linarith
  then show ?thesis
    by (simp add: phase_def float_pow_def)
qed

lemma sin_one_pos: "0 < sin (1::real)"
proof -
  have "(1::real) < pi" using pi_ge_two by linarith
  then show ?thesis by (simp add: sin_gt_zero)
qed

text \<open>
  Claim C10. For every \<open>seq_len \<ge> 1\<close> and \<open>dim_model \<ge> 1\<close>, every entry of
  \<open>position_encoding seq_len dim_model\<close> is \<open>sin 1\<close> at an even channel and \<open>cos 1\<close> at
  an odd channel, whatever the position: the exponent \<open>dim // dim_model\<close> is zero for every
  channel below \<open>dim_model\<close>, so the phase is the constant 1.
\<close>

theorem position_encoding_constant:
  assumes "1 \<le> seq_len" and "1 \<le> dim_model"
    and "pos < seq_len" and "ch < dim_model"
  shows "shape (position_encoding seq_len dim_model) = (1, seq_len, dim_model) \<and>
         elem (position_encoding seq_len dim_model) 0 pos ch
           = (if even ch then sin 1 else cos 1)"
  using assms by (simp add: position_encoding_def shape_def phase_in_range even_iff_mod_2_eq_zero)

theorem position_encoding_constant_witness:
  "shape (position_encoding 3 4) = (1, 3, 4) \<and>
   elem (position_encoding 3 4) 0 2 0 = sin 1 \<and>
   elem (position_encoding 3 4) 0 2 1 = cos 1 \<and>
   elem (position_encoding 3 4) 0 0 2 = sin 1"
  using position_encoding_constant [of 3 4 2 0]
    position_encoding_constant [of 3 4 2 1]
    position_encoding_constant [of 3 4 0 2]
  by simp

text \<open>
  Claim C2. The specification and the notebook's own text give the entry at position
  \<open>pos\<close> and even channel \<open>i\<close> as \<open>sin (pos / 10000^(2*floor(i/2)/dim_model))\<close>, so row 0
  would be \<open>[0, 1, 0, 1, ...]\<close>. The code computes \<open>(pos / 1e4) ** (dim // dim_model)\<close>
  instead: at \<open>seq_len = 1\<close>, \<open>dim_model = 2\<close> row 0 is \<open>[sin 1, cos 1]\<close>, where the
  documented encoding has \<open>[0, 1]\<close>.
\<close>

theorem position_encoding_row0_differs:
  "elem (position_encoding 1 2) 0 0 0 = sin 1 \<and>
   elem (position_encoding 1 2) 0 0 1 = cos 1 \<and>
   elem (position_encoding_spec 1 2) 0 0 0 = 0 \<and>
   elem (position_encoding_spec 1 2) 0 0 1 = 1 \<and>
   elem (position_encoding 1 2) 0 0 0 \<noteq> elem (position_encoding_spec 1 2) 0 0 0"
proof -
  have "phase 2 0 0 = 1" "phase 2 0 1 = 1"
    by (simp_all add: phase_in_range)
  then show ?thesis
    using sin_one_pos
    by (simp add: position_encoding_def position_encoding_spec_def)
qed

section \<open>Properties of the attention kernel\<close>

lemma shape_eq: "shape t = (b, n, m) \<longleftrightarrow> size0 t = b \<and> size1 t = n \<and> size2 t = m"
  by (simp add: shape_def)

lemma softmax_row_sum:
  assumes "0 < size2 t"
  shows "row_sum (softmax t) b i = 1"
proof -
  let ?S = "\<Sum>k<size2 t. exp (elem t b i k)"
  have "0 < ?S"
    using assms by (intro sum_pos) auto
  then have "(\<Sum>j<size2 t. exp (elem t b i j) / ?S) = 1"
    by (simp add: sum_divide_distrib [symmetric])
  then show ?thesis
    by (simp add: row_sum_def softmax_def)
qed

lemma attention_weights_ok:
  assumes "shape query = (b, Lq, dk)" and "shape key = (b, Lk, dk)"
  shows "\<exists>w. attention_weights query key = Inr w \<and> shape w = (b, Lq, Lk) \<and>
           elem w = weight_spec query key"
  using assms
  by (simp add: attention_weights_def bmm_def transpose12_def softmax_def div_scalar_def
      shape_eq weight_spec_def score_def Let_def fun_eq_iff)

lemma attention_ok:
  assumes "shape query = (b, Lq, dk)" and "shape key = (b, Lk, dk)"
    and "shape val = (b, Lk, dv)"
  shows "\<exists>out. scaled_dot_product_attention query key val = Inr out \<and>
           shape out = (b, Lq, dv) \<and> elem out = attention_spec query key val"
proof -
  obtain w where w: "attention_weights query key = Inr w" "shape w = (b, Lq, Lk)"
      "elem w = weight_spec query key"
    using attention_weights_ok [OF assms(1,2)] by blast
  then show ?thesis
    using assms
    by (simp add: scaled_dot_product_attention_def bmm_def shape_eq attention_spec_def
        fun_eq_iff)
qed

text \<open>
  Claim C4, as amended. For a query of shape \<open>(b, Lq, dk)\<close>, a key of shape
  \<open>(b, Lk, dk)\<close> and a value of shape \<open>(b, Lk, dv)\<close> with \<open>Lk \<ge> 1\<close> and \<open>dk \<ge> 1\<close>,
  \<open>scaled_dot_product_attention\<close> returns the batched product of
  \<open>softmax (Q K\<^sup>T / sqrt dk)\<close> with the value, the softmax taken along the key axis, every
  weight row summing to 1, and the output has shape \<open>(b, Lq, dv)\<close>.
\<close>

theorem attention_kernel:
  assumes "shape query = (b, Lq, dk)" and "shape key = (b, Lk, dk)"
    and "shape val = (b, Lk, dv)" and "1 \<le> Lk" and "1 \<le> dk"
  shows "\<exists>w out. attention_weights query key = Inr w \<and>
           scaled_dot_product_attention query key val = Inr out \<and>
           shape w = (b, Lq, Lk) \<and> elem w = weight_spec query key \<and>
           (\<forall>n<b. \<forall>i<Lq. row_sum w n i = 1) \<and>
           shape out = (b, Lq, dv) \<and> elem out = attention_spec query key val"
proof -
  obtain w where w: "attention_weights query key = Inr w" "shape w = (b, Lq, Lk)"
      "elem w = weight_spec query key"
    using attention_weights_ok [OF assms(1,2)] by blast
  obtain out where out: "scaled_dot_product_attention query key val = Inr out"
      "shape out = (b, Lq, dv)" "elem out = attention_spec query key val"
    using attention_ok [OF assms(1,2,3)] by blast
  have "\<exists>t. w = softmax t \<and> size2 t = Lk"
    using w(1) assms(1,2)
    by (auto simp: attention_weights_def bmm_def transpose12_def div_scalar_def shape_eq
        Let_def split: if_splits)
  then have "row_sum w n i = 1" for n i
    using softmax_row_sum assms(4) by auto
  with w out show ?thesis by simp
qed

theorem attention_kernel_witness:
  "\<exists>w out. attention_weights (full 2 3 4 1) (full 2 5 4 1) = Inr w \<and>
     scaled_dot_product_attention (full 2 3 4 1) (full 2 5 4 1) (full 2 5 6 1) = Inr out \<and>
     shape w = (2, 3, 5) \<and> elem w = weight_spec (full 2 3 4 1) (full 2 5 4 1) \<and>
     (\<forall>n<2. \<forall>i<3. row_sum w n i = 1) \<and>
     shape out = (2, 3, 6) \<and>
     elem out = attention_spec (full 2 3 4 1) (full 2 5 4 1) (full 2 5 6 1)"
  using attention_kernel [of "full 2 3 4 1" 2 3 4 "full 2 5 4 1" 5 "full 2 5 6 1" 6]
  by (simp add: full_def shape_def)

text \<open>
  Claim C4 as stated fails for an empty key sequence: with \<open>Lk = 0\<close> the weight rows are
  empty, so they sum to 0.
\<close>

theorem attention_empty_keys_counterexample:
  "map_sum id (\<lambda>w. (shape w, row_sum w 0 0)) (attention_weights (full 1 1 1 0) (full 1 0 1 0))
     = Inr ((1, 1, 0), 0)"
  by (simp add: attention_weights_def bmm_def transpose12_def div_scalar_def softmax_def
      full_def shape_def row_sum_def Let_def)

section \<open>Shapes through the modules\<close>

lemma Linear_forward_ok:
  assumes "size2 x = n_in"
  shows "\<exists>y. Linear_forward (Linear_init n_in n_out ps) x = Inr y \<and>
           shape y = (size0 x, size1 x, n_out)"
  using assms by (simp add: Linear_forward_def Linear_init_def shape_def)

lemma Linear_forward_fail:
  assumes "size2 x \<noteq> n_in"
  shows "Linear_forward (Linear_init n_in n_out ps) x = Inl RuntimeError"
  using assms by (simp add: Linear_forward_def Linear_init_def)

lemma attention_fail:
  assumes "shape query = (b, Lq, dk)" and "shape key = (b, Lk, dk)"
    and "shape val = (b', Lv, dv)" and "b' \<noteq> b \<or> Lv \<noteq> Lk"
  shows "scaled_dot_product_attention query key val = Inl RuntimeError"
proof -
  obtain w where w: "attention_weights query key = Inr w" "shape w = (b, Lq, Lk)"
    using attention_weights_ok [OF assms(1,2)] by blast
  then show ?thesis
    using assms(3,4)
    by (auto simp: scaled_dot_product_attention_def bmm_def shape_eq)
qed

lemma AttentionHead_forward_ok:
  assumes "shape query = (b, Lq, d)" and "shape key = (b, Lk, d)" and "shape val = (b, Lk, d)"
  shows "\<exists>out. AttentionHead_forward (AttentionHead_init d dk dv ps) query key val = Inr out \<and>
           shape out = (b, Lq, dv)"
proof -
  obtain q where q: "Linear_forward (Linear_init d dk (child 0 ps)) query = Inr q"
      "shape q = (b, Lq, dk)"
    using Linear_forward_ok [of query d dk] assms(1) by (auto simp: shape_eq)
  obtain k where k: "Linear_forward (Linear_init d dk (child 1 ps)) key = Inr k"
      "shape k = (b, Lk, dk)"
    using Linear_forward_ok [of key d dk] assms(2) by (auto simp: shape_eq)
  obtain v where v: "Linear_forward (Linear_init d dv (child 2 ps)) val = Inr v"
      "shape v = (b, Lk, dv)"
    using Linear_forward_ok [of val d dv] assms(3) by (auto simp: shape_eq)
  show ?thesis
    using attention_ok [OF q(2) k(2) v(2)] q(1) k(1) v(1)
    by (auto simp: AttentionHead_forward_def AttentionHead_init_def)
qed

lemma AttentionHead_forward_fail:
  assumes "shape query = (b, Lq, d)" and "shape key = (b, Lk, d)" and "shape val = (b', Lv, d')"
    and "b' \<noteq> b \<or> Lv \<noteq> Lk \<or> d' \<noteq> d"
  shows "AttentionHead_forward (AttentionHead_init d dk dv ps) query key val = Inl RuntimeError"
proof -
  obtain q where q: "Linear_forward (Linear_init d dk (child 0 ps)) query = Inr q"
      "shape q = (b, Lq, dk)"
    using Linear_forward_ok [of query d dk] assms(1) by (auto simp: shape_eq)
  obtain k where k: "Linear_forward (Linear_init d dk (child 1 ps)) key = Inr k"
      "shape k = (b, Lk, dk)"
    using Linear_forward_ok [of key d dk] assms(2) by (auto simp: shape_eq)
  show ?thesis
  proof (cases "d' = d")
    case False
    then have "Linear_forward (Linear_init d dv (child 2 ps)) val = Inl RuntimeError"
      using assms(3) by (intro Linear_forward_fail) (simp add: shape_eq)
    then show ?thesis
      using q(1) k(1) by (simp add: AttentionHead_forward_def AttentionHead_init_def)
  next
    case True
    then obtain v where v: "Linear_forward (Linear_init d dv (child 2 ps)) val = Inr v"
        "shape v = (b', Lv, dv)"
      using Linear_forward_ok [of val d dv] assms(3) by (auto simp: shape_eq)
    have "scaled_dot_product_attention q k v = Inl RuntimeError"
      using attention_fail [OF q(2) k(2) v(2)] assms(4) True by simp
    then show ?thesis
      using q(1) k(1) v(1) by (simp add: AttentionHead_forward_def AttentionHead_init_def)
  qed
qed

lemma collect_all_ok:
  assumes "\<forall>x\<in>set xs. \<exists>y. f x = Inr y \<and> P y"
  shows "\<exists>ys. collect (map f xs) = Inr ys \<and> length ys = length xs \<and> (\<forall>y\<in>set ys. P y)"
  using assms
proof (induction xs)
  case Nil
  then show ?case by simp
next
  case (Cons x xs)
  then obtain y where y: "f x = Inr y" "P y" by auto
  from Cons obtain ys where "collect (map f xs) = Inr ys" "length ys = length xs"
      "\<forall>y\<in>set ys. P y" by auto
  with y show ?case by simp
qed

lemma collect_first_fails:
  assumes "xs \<noteq> []" and "\<forall>x\<in>set xs. f x = Inl e"
  shows "collect (map f xs) = Inl e"
  using assms by (cases xs) simp_all

lemma cat_ok:
  assumes "ts \<noteq> []" and "\<forall>t\<in>set ts. shape t = (b, n, m)"
  shows "\<exists>c. cat ts = Inr c \<and> shape c = (b, n, length ts * m)"
  using assms
proof (induction ts rule: cat.induct)
  case 1
  then show ?case by simp
next
  case (2 t)
  then show ?case by simp
next
  case (3 t u ts)
  then obtain c where c: "cat (u # ts) = Inr c" "shape c = (b, n, length (u # ts) * m)"
    by auto
  have "shape t = (b, n, m)" using 3 by simp
  with c show ?case
    by (simp add: cat2_def shape_eq)
qed

lemma MultiHeadAttention_forward_ok:
  assumes "1 \<le> num_heads"
    and "shape query = (b, Lq, d)" and "shape key = (b, Lk, d)" and "shape val = (b, Lk, d)"
  shows "\<exists>out. MultiHeadAttention_forward (MultiHeadAttention_init num_heads d dk dv ps)
                  query key val = Inr out \<and> shape out = (b, Lq, d)"
proof -
  let ?heads = "map (\<lambda>i. AttentionHead_init d dk dv (child i ps)) [0..<num_heads]"
  have "\<forall>h\<in>set ?heads. \<exists>y. AttentionHead_forward h query key val = Inr y \<and> shape y = (b, Lq, dv)"
    using AttentionHead_forward_ok [OF assms(2,3,4)] by auto
  then obtain outs where outs:
      "collect (map (\<lambda>h. AttentionHead_forward h query key val) ?heads) = Inr outs"
      "length outs = length ?heads" "\<forall>y\<in>set outs. shape y = (b, Lq, dv)"
    using collect_all_ok [of ?heads "\<lambda>h. AttentionHead_forward h query key val"
        "\<lambda>y. shape y = (b, Lq, dv)"] by blast
  then have "outs \<noteq> []" using assms(1) by auto
  then obtain c where c: "cat outs = Inr c" "shape c = (b, Lq, length outs * dv)"
    using cat_ok outs(3) by blast
  have "size2 c = num_heads * dv" using c(2) outs(2) by (simp add: shape_eq)
  then obtain out where
      "Linear_forward (Linear_init (num_heads * dv) d (child num_heads ps)) c = Inr out"
      "shape out = (size0 c, size1 c, d)"
    using Linear_forward_ok by blast
  with outs(1) c show ?thesis
    by (simp add: MultiHeadAttention_forward_def MultiHeadAttention_init_def shape_eq)
qed

lemma MultiHeadAttention_forward_fail:
  assumes "1 \<le> num_heads"
    and "shape query = (b, Lq, d)" and "shape key = (b, Lk, d)" and "shape val = (b', Lv, d')"
    and "b' \<noteq> b \<or> Lv \<noteq> Lk \<or> d' \<noteq> d"
  shows "MultiHeadAttention_forward (MultiHeadAttention_init num_heads d dk dv ps)
           query key val = Inl RuntimeError"
proof -
  let ?heads = "map (\<lambda>i. AttentionHead_init d dk dv (child i ps)) [0..<num_heads]"
  have "?heads \<noteq> []" using assms(1) by simp
  moreover have "\<forall>h\<in>set ?heads. AttentionHead_forward h query key val = Inl RuntimeError"
    using AttentionHead_forward_fail [OF assms(2,3,4,5)] by auto
  ultimately have "collect (map (\<lambda>h. AttentionHead_forward h query key val) ?heads)
      = Inl RuntimeError"
    by (rule collect_first_fails)
  then show ?thesis
    by (simp add: MultiHeadAttention_forward_def MultiHeadAttention_init_def)
qed

lemma FeedForward_forward_ok:
  assumes "shape x = (b, L, d)"
  shows "\<exists>out. FeedForward_forward (feed_forward d dff ps) x = Inr out \<and> shape out = (b, L, d)"
  using assms
  by (simp add: FeedForward_forward_def feed_forward_def Linear_forward_def Linear_init_def
      relu_def shape_eq)

lemma Residual_init_ok:
  assumes "0 \<le> rate" and "rate \<le> 1"
  shows "Residual_init s d rate
           = Inr \<lparr> res_sublayer = s, res_norm = LayerNorm_init d,
                   res_dropout = \<lparr> drop_p = rate \<rparr> \<rparr>"
  using assms by (simp add: Residual_init_def Dropout_init_def)

lemma Residual_init_Inr:
  assumes "Residual_init s d rate = Inr r"
  shows "res_sublayer r = s \<and> res_norm r = LayerNorm_init d \<and> 0 \<le> rate \<and> rate \<le> 1
         \<and> res_dropout r = \<lparr> drop_p = rate \<rparr>"
  using assms by (auto simp: Residual_init_def Dropout_init_def split: if_splits)

lemma shape_Dropout_forward [simp]: "shape (Dropout_forward d ctx x) = shape x"
  by (simp add: Dropout_forward_def shape_def)

lemma add_same_shape:
  assumes "shape x = shape y"
  shows "\<exists>a. add x y = Inr a \<and> shape a = shape x"
  using assms by (simp add: add_def bdim_def shape_def)

lemma LayerNorm_forward_ok:
  assumes "size2 x = d"
  shows "\<exists>out. LayerNorm_forward (LayerNorm_init d) x = Inr out \<and> shape out = shape x"
  using assms by (simp add: LayerNorm_forward_def LayerNorm_init_def shape_def)

lemma Residual_forward_ok:
  assumes "res_norm r = LayerNorm_init d"
    and "tensors \<noteq> []" and "res_sublayer r tensors = Inr y"
    and "shape y = (b, L, d)" and "shape (last tensors) = (b, L, d)"
  shows "\<exists>out. Residual_forward r ctx tensors = Inr out \<and> shape out = (b, L, d)"
proof -
  obtain a where a: "add (last tensors) (Dropout_forward (res_dropout r) ctx y) = Inr a"
      "shape a = (b, L, d)"
    using add_same_shape [of "last tensors" "Dropout_forward (res_dropout r) ctx y"] assms(4,5)
    by auto
  then have "size2 a = d" by (simp add: shape_eq)
  then obtain out where "LayerNorm_forward (LayerNorm_init d) a = Inr out" "shape out = shape a"
    using LayerNorm_forward_ok by blast
  with a assms(1,2,3) show ?thesis
    by (simp add: Residual_forward_def)
qed

lemma Residual_forward_fail:
  assumes "tensors \<noteq> []" and "res_sublayer r tensors = Inl e"
  shows "Residual_forward r ctx tensors = Inl e"
  using assms by (simp add: Residual_forward_def)

lemma TransformerEncoderLayer_init_Inr:
  assumes "TransformerEncoderLayer_init d h ff rate ps = Inr l"
  shows "1 \<le> h \<and> 0 \<le> rate \<and> rate \<le> 1 \<and>
         l = \<lparr> enc_attention =
                 \<lparr> res_sublayer = MultiHeadAttention_call
                     (MultiHeadAttention_init h d (d div h) (d div h) (child 0 ps)),
                   res_norm = LayerNorm_init d, res_dropout = \<lparr> drop_p = rate \<rparr> \<rparr>,
               enc_feed_forward =
                 \<lparr> res_sublayer = FeedForward_call (feed_forward d ff (child 1 ps)),
                   res_norm = LayerNorm_init d, res_dropout = \<lparr> drop_p = rate \<rparr> \<rparr> \<rparr>"
  using assms
  by (auto simp: TransformerEncoderLayer_init_def Residual_init_def Dropout_init_def Let_def
      split: if_splits)

lemma TransformerEncoderLayer_init_ok:
  assumes "1 \<le> h" and "0 \<le> rate" and "rate \<le> 1"
  shows "\<exists>l. TransformerEncoderLayer_init d h ff rate ps = Inr l"
  using assms
  by (simp add: TransformerEncoderLayer_init_def Residual_init_def Dropout_init_def Let_def)

lemma TransformerEncoderLayer_forward_ok:
  assumes "TransformerEncoderLayer_init d h ff rate ps = Inr l" and "shape src = (b, L, d)"
  shows "\<exists>out. TransformerEncoderLayer_forward l ctx src = Inr out \<and> shape out = (b, L, d)"
proof -
  note l = TransformerEncoderLayer_init_Inr [OF assms(1)]
  let ?m = "MultiHeadAttention_init h d (d div h) (d div h) (child 0 ps)"
  obtain y where y: "MultiHeadAttention_forward ?m src src src = Inr y" "shape y = (b, L, d)"
    using MultiHeadAttention_forward_ok [of h src b L d src L src] l assms(2) by blast
  have "\<exists>s1. Residual_forward (enc_attention l) (sub 0 ctx) [src, src, src] = Inr s1 \<and>
          shape s1 = (b, L, d)"
    by (rule Residual_forward_ok [where d = d and y = y])
      (use l y assms(2) in \<open>auto simp: MultiHeadAttention_call_def\<close>)
  then obtain s1 where s1: "Residual_forward (enc_attention l) (sub 0 ctx) [src, src, src] = Inr s1"
      "shape s1 = (b, L, d)" by blast
  obtain z where z: "FeedForward_forward (feed_forward d ff (child 1 ps)) s1 = Inr z"
      "shape z = (b, L, d)"
    using FeedForward_forward_ok [OF s1(2)] by blast
  have "\<exists>out. Residual_forward (enc_feed_forward l) (sub 1 ctx) [s1] = Inr out \<and>
          shape out = (b, L, d)"
    by (rule Residual_forward_ok [where d = d and y = z])
      (use l z s1 in \<open>auto simp: FeedForward_call_def\<close>)
  with s1(1) show ?thesis
    by (simp add: TransformerEncoderLayer_forward_def)
qed

lemma TransformerDecoderLayer_init_Inr:
  assumes "TransformerDecoderLayer_init d h ff rate ps = Inr l"
  shows "1 \<le> h \<and> 0 \<le> rate \<and> rate \<le> 1 \<and>
         l = \<lparr> dec_attention_1 =
                 \<lparr> res_sublayer = MultiHeadAttention_call
                     (MultiHeadAttention_init h d (d div h) (d div h) (child 0 ps)),
                   res_norm = LayerNorm_init d, res_dropout = \<lparr> drop_p = rate \<rparr> \<rparr>,
               dec_attention_2 =
                 \<lparr> res_sublayer = MultiHeadAttention_call
                     (MultiHeadAttention_init h d (d div h) (d div h) (child 1 ps)),
                   res_norm = LayerNorm_init d, res_dropout = \<lparr> drop_p = rate \<rparr> \<rparr>,
               dec_feed_forward =
                 \<lparr> res_sublayer = FeedForward_call (feed_forward d ff (child 2 ps)),
                   res_norm = LayerNorm_init d, res_dropout = \<lparr> drop_p = rate \<rparr> \<rparr> \<rparr>"
  using assms
  by (auto simp: TransformerDecoderLayer_init_def Residual_init_def Dropout_init_def Let_def
      split: if_splits)

lemma TransformerDecoderLayer_init_ok:
  assumes "1 \<le> h" and "0 \<le> rate" and "rate \<le> 1"
  shows "\<exists>l. TransformerDecoderLayer_init d h ff rate ps = Inr l"
  using assms
  by (simp add: TransformerDecoderLayer_init_def Residual_init_def Dropout_init_def Let_def)

lemma decoder_self_attention_ok:
  assumes "TransformerDecoderLayer_init d h ff rate ps = Inr l" and "shape tgt = (b, L, d)"
  shows "\<exists>t1. Residual_forward (dec_attention_1 l) ctx [tgt, tgt, tgt] = Inr t1 \<and>
           shape t1 = (b, L, d)"
proof -
  note l = TransformerDecoderLayer_init_Inr [OF assms(1)]
  let ?m = "MultiHeadAttention_init h d (d div h) (d div h) (child 0 ps)"
  obtain y where y: "MultiHeadAttention_forward ?m tgt tgt tgt = Inr y" "shape y = (b, L, d)"
    using MultiHeadAttention_forward_ok [of h tgt b L d tgt L tgt] l assms(2) by blast
  show ?thesis
    by (rule Residual_forward_ok [where d = d and y = y])
      (use l y assms(2) in \<open>auto simp: MultiHeadAttention_call_def\<close>)
qed

lemma decoder_feed_forward_ok:
  assumes "TransformerDecoderLayer_init d h ff rate ps = Inr l" and "shape t2 = (b, L, d)"
  shows "\<exists>out. Residual_forward (dec_feed_forward l) ctx [t2] = Inr out \<and>
           shape out = (b, L, d)"
proof -
  note l = TransformerDecoderLayer_init_Inr [OF assms(1)]
  obtain z where z: "FeedForward_forward (feed_forward d ff (child 2 ps)) t2 = Inr z"
      "shape z = (b, L, d)"
    using FeedForward_forward_ok [OF assms(2)] by blast
  show ?thesis
    by (rule Residual_forward_ok [where d = d and y = z])
      (use l z assms(2) in \<open>auto simp: FeedForward_call_def\<close>)
qed

lemma TransformerDecoderLayer_forward_ok:
  assumes "TransformerDecoderLayer_init d h ff rate ps = Inr l"
    and "shape tgt = (b, L, d)" and "shape memory = (b, L, d)"
  shows "\<exists>out. TransformerDecoderLayer_forward l ctx tgt memory = Inr out \<and>
           shape out = (b, L, d)"
proof -
  note l = TransformerDecoderLayer_init_Inr [OF assms(1)]
  obtain t1 where t1: "Residual_forward (dec_attention_1 l) (sub 0 ctx) [tgt, tgt, tgt] = Inr t1"
      "shape t1 = (b, L, d)"
    using decoder_self_attention_ok [OF assms(1,2)] by blast
  let ?m = "MultiHeadAttention_init h d (d div h) (d div h) (child 1 ps)"
  obtain y where y: "MultiHeadAttention_forward ?m memory memory t1 = Inr y"
      "shape y = (b, L, d)"
    using MultiHeadAttention_forward_ok [of h memory b L d memory L t1] l assms(3) t1(2)
    by blast
  have "\<exists>t2. Residual_forward (dec_attention_2 l) (sub 1 ctx) [memory, memory, t1] = Inr t2 \<and>
          shape t2 = (b, L, d)"
    by (rule Residual_forward_ok [where d = d and y = y])
      (use l y t1 in \<open>auto simp: MultiHeadAttention_call_def\<close>)
  then obtain t2 where t2:
      "Residual_forward (dec_attention_2 l) (sub 1 ctx) [memory, memory, t1] = Inr t2"
      "shape t2 = (b, L, d)" by blast
  show ?thesis
    using decoder_feed_forward_ok [OF assms(1) t2(2), of "sub 2 ctx"] t1(1) t2(1)
    by (simp add: TransformerDecoderLayer_forward_def)
qed

lemma TransformerDecoderLayer_forward_fail:
  assumes "TransformerDecoderLayer_init d h ff rate ps = Inr l"
    and "shape tgt = (b, Lt, d)" and "shape memory = (b, Ls, d)" and "Ls \<noteq> Lt"
  shows "TransformerDecoderLayer_forward l ctx tgt memory = Inl RuntimeError"
proof -
  note l = TransformerDecoderLayer_init_Inr [OF assms(1)]
  obtain t1 where t1: "Residual_forward (dec_attention_1 l) (sub 0 ctx) [tgt, tgt, tgt] = Inr t1"
      "shape t1 = (b, Lt, d)"
    using decoder_self_attention_ok [OF assms(1,2)] by blast
  let ?m = "MultiHeadAttention_init h d (d div h) (d div h) (child 1 ps)"
  have "MultiHeadAttention_forward ?m memory memory t1 = Inl RuntimeError"
    using MultiHeadAttention_forward_fail [of h memory b Ls d memory Ls t1 b Lt d] l assms(3,4)
      t1(2) by auto
  then have "Residual_forward (dec_attention_2 l) (sub 1 ctx) [memory, memory, t1]
      = Inl RuntimeError"
    using l by (intro Residual_forward_fail) (auto simp: MultiHeadAttention_call_def)
  with t1(1) show ?thesis
    by (simp add: TransformerDecoderLayer_forward_def)
qed

lemma collect_Inr_elems:
  assumes "collect (map f xs) = Inr ys"
  shows "length ys = length xs \<and> (\<forall>y\<in>set ys. \<exists>x\<in>set xs. f x = Inr y)"
  using assms
proof (induction xs arbitrary: ys)
  case Nil
  then show ?case by simp
next
  case (Cons x xs)
  then show ?case
    by (cases "f x"; cases "collect (map f xs)") auto
qed

lemma encoder_loop_ok:
  assumes "\<forall>l\<in>set ls. \<exists>ps. TransformerEncoderLayer_init d h ff rate ps = Inr l"
    and "shape src = (b, L, d)"
  shows "\<exists>out. encoder_loop ls i ctx src = Inr out \<and> shape out = (b, L, d)"
  using assms
proof (induction ls arbitrary: i src)
  case Nil
  then show ?case by simp
next
  case (Cons l ls)
  then obtain ps where "TransformerEncoderLayer_init d h ff rate ps = Inr l" by auto
  then obtain s1 where s1: "TransformerEncoderLayer_forward l (sub i ctx) src = Inr s1"
      "shape s1 = (b, L, d)"
    using TransformerEncoderLayer_forward_ok Cons.prems(2) by blast
  then show ?case
    using Cons.IH [of s1 "Suc i"] Cons.prems(1) by simp
qed

lemma decoder_loop_ok:
  assumes "\<forall>l\<in>set ls. \<exists>ps. TransformerDecoderLayer_init d h ff rate ps = Inr l"
    and "shape tgt = (b, L, d)" and "shape memory = (b, L, d)"
  shows "\<exists>out. decoder_loop ls i ctx tgt memory = Inr out \<and> shape out = (b, L, d)"
  using assms
proof (induction ls arbitrary: i tgt)
  case Nil
  then show ?case by simp
next
  case (Cons l ls)
  then obtain ps where "TransformerDecoderLayer_init d h ff rate ps = Inr l" by auto
  then obtain t1 where t1: "TransformerDecoderLayer_forward l (sub i ctx) tgt memory = Inr t1"
      "shape t1 = (b, L, d)"
    using TransformerDecoderLayer_forward_ok Cons.prems(2,3) by blast
  then show ?case
    using Cons.IH [of t1 "Suc i"] Cons.prems(1,3) by simp
qed

lemma decoder_loop_fail:
  assumes "ls \<noteq> []"
    and "\<forall>l\<in>set ls. \<exists>ps. TransformerDecoderLayer_init d h ff rate ps = Inr l"
    and "shape tgt = (b, Lt, d)" and "shape memory = (b, Ls, d)" and "Ls \<noteq> Lt"
  shows "decoder_loop ls i ctx tgt memory = Inl RuntimeError"
proof (cases ls)
  case Nil
  with assms(1) show ?thesis by simp
next
  case (Cons l rest)
  then obtain ps where "TransformerDecoderLayer_init d h ff rate ps = Inr l"
    using assms(2) by auto
  then have "TransformerDecoderLayer_forward l (sub i ctx) tgt memory = Inl RuntimeError"
    using TransformerDecoderLayer_forward_fail assms(3,4,5) by blast
  with Cons show ?thesis by simp
qed

lemma TransformerEncoder_init_Inr:
  assumes "TransformerEncoder_init n d h ff rate ps = Inr enc"
  shows "length (encoder_layers enc) = n \<and>
         (\<forall>l\<in>set (encoder_layers enc). \<exists>ps'. TransformerEncoderLayer_init d h ff rate ps' = Inr l)"
proof -
  obtain ls where ls: "collect (map (\<lambda>i. TransformerEncoderLayer_init d h ff rate (child i ps))
      [0..<n]) = Inr ls" "enc = \<lparr> encoder_layers = ls \<rparr>"
    using assms by (auto simp: TransformerEncoder_init_def split: sum.splits)
  show ?thesis
    using collect_Inr_elems [OF ls(1)] ls(2) by auto
qed

lemma TransformerDecoder_init_Inr:
  assumes "TransformerDecoder_init n d h ff rate ps = Inr dec"
  shows "length (decoder_layers dec) = n \<and>
         (\<forall>l\<in>set (decoder_layers dec). \<exists>ps'. TransformerDecoderLayer_init d h ff rate ps' = Inr l) \<and>
         decoder_linear dec = Linear_init d d (child n ps)"
proof -
  obtain ls where ls: "collect (map (\<lambda>i. TransformerDecoderLayer_init d h ff rate (child i ps))
      [0..<n]) = Inr ls"
      "dec = \<lparr> decoder_layers = ls, decoder_linear = Linear_init d d (child n ps) \<rparr>"
    using assms by (auto simp: TransformerDecoder_init_def split: sum.splits)
  show ?thesis
    using collect_Inr_elems [OF ls(1)] ls(2) by auto
qed

lemma Transformer_init_Inr:
  assumes "Transformer_init ne nd d h ff rate ps = Inr t"
  shows "TransformerEncoder_init ne d h ff rate (child 0 ps) = Inr (tr_encoder t) \<and>
         TransformerDecoder_init nd d h ff rate (child 1 ps) = Inr (tr_decoder t)"
  using assms by (auto simp: Transformer_init_def split: sum.splits)

lemma Transformer_init_ok:
  assumes "1 \<le> h" and "0 \<le> rate" and "rate \<le> 1"
  shows "\<exists>t. Transformer_init ne nd d h ff rate ps = Inr t"
proof -
  have "\<exists>ls. collect (map (\<lambda>i. TransformerEncoderLayer_init d h ff rate (child i (child 0 ps)))
      [0..<ne]) = Inr ls \<and> length ls = length [0..<ne] \<and> (\<forall>l\<in>set ls. True)"
    using TransformerEncoderLayer_init_ok [OF assms]
    by (intro collect_all_ok) auto
  moreover have "\<exists>ls. collect (map (\<lambda>i. TransformerDecoderLayer_init d h ff rate
      (child i (child 1 ps))) [0..<nd]) = Inr ls \<and> length ls = length [0..<nd] \<and> (\<forall>l\<in>set ls. True)"
    using TransformerDecoderLayer_init_ok [OF assms]
    by (intro collect_all_ok) auto
  ultimately show ?thesis
    by (auto simp: Transformer_init_def TransformerEncoder_init_def TransformerDecoder_init_def)
qed

text \<open>The in-place addition of the positional encoding.\<close>

lemma iadd_position_encoding:
  "\<exists>x. iadd t (position_encoding (size1 t) (size2 t)) = Inr x \<and> shape x = shape t \<and>
     (\<forall>b<size0 t. \<forall>i<size1 t. \<forall>j<size2 t.
        elem x b i j = elem t b i j + (if even j then sin 1 else cos 1))"
proof -
  let ?pe = "position_encoding (size1 t) (size2 t)"
  have sz: "size0 ?pe = 1" "size1 ?pe = size1 t" "size2 ?pe = size2 t"
    by (simp_all add: position_encoding_def)
  define a where "a = \<lparr> size0 = size0 t, size1 = size1 t, size2 = size2 t,
      elem = (\<lambda>i j k. elem t (bidx (size0 t) i) (bidx (size1 t) j) (bidx (size2 t) k)
                  + elem ?pe (bidx 1 i) (bidx (size1 t) j) (bidx (size2 t) k)) \<rparr>"
  have a: "add t ?pe = Inr a" "shape a = shape t"
    by (simp_all add: add_def sz bdim_def shape_def a_def)
  have "elem a b i j = elem t b i j + (if even j then sin 1 else cos 1)"
    if "b < size0 t" "i < size1 t" "j < size2 t" for b i j
  proof -
    have ix: "bidx (size0 t) b = b" "bidx (size1 t) i = i" "bidx (size2 t) j = j"
      using that by (auto simp: bidx_def)
    have "elem ?pe (bidx 1 b) i j = (if even j then sin 1 else cos 1)"
      using that by (simp add: position_encoding_def phase_in_range even_iff_mod_2_eq_zero)
    then show ?thesis by (simp add: a_def ix)
  qed
  with a(1,2) show ?thesis
    by (simp add: iadd_def)
qed

lemma iadd_position_encoding_shape:
  obtains x where "iadd t (position_encoding (size1 t) (size2 t)) = Inr x" "shape x = shape t"
  using iadd_position_encoding [of t] by blast

lemma TransformerEncoder_forward_ok:
  assumes "TransformerEncoder_init n d h ff rate ps = Inr enc" and "shape (\<sigma> src) = (b, L, d)"
  shows "\<exists>x m. iadd (\<sigma> src) (position_encoding (size1 (\<sigma> src)) (size2 (\<sigma> src))) = Inr x \<and>
           shape x = (b, L, d) \<and>
           TransformerEncoder_forward enc ctx \<sigma> src = (\<sigma>(src := x), Inr m) \<and>
           (m = Stored src \<or> (\<exists>t. m = Temp t \<and> shape t = (b, L, d)))"
proof -
  obtain x where x: "iadd (\<sigma> src) (position_encoding (size1 (\<sigma> src)) (size2 (\<sigma> src))) = Inr x"
      "shape x = shape (\<sigma> src)"
    by (rule iadd_position_encoding_shape)
  note enc = TransformerEncoder_init_Inr [OF assms(1)]
  obtain out where out: "encoder_loop (encoder_layers enc) 0 ctx x = Inr out"
      "shape out = (b, L, d)"
    using encoder_loop_ok [of "encoder_layers enc" d h ff rate x b L 0 ctx] enc x(2) assms(2)
    by auto
  show ?thesis
    using x out assms(2)
    by (auto simp: TransformerEncoder_forward_def Let_def)
qed

lemma shape_deref_update:
  assumes "shape x = shape (\<sigma> a)"
  shows "shape (deref (\<sigma>(a := x)) m) = shape (deref \<sigma> m)"
  using assms by (cases m) auto

lemma TransformerDecoder_forward_ok:
  assumes "TransformerDecoder_init n d h ff rate ps = Inr dec"
    and "shape (\<sigma> tgt) = (b, Lt, d)" and "shape (deref \<sigma> memory) = (b, Ls, d)"
    and "Ls = Lt \<or> n = 0"
  shows "\<exists>x out. TransformerDecoder_forward dec ctx \<sigma> tgt memory = (\<sigma>(tgt := x), Inr out) \<and>
           iadd (\<sigma> tgt) (position_encoding (size1 (\<sigma> tgt)) (size2 (\<sigma> tgt))) = Inr x \<and>
           shape out = (b, Lt, d) \<and> (0 < d \<longrightarrow> (\<forall>k i. row_sum out k i = 1))"
proof -
  obtain x where x: "iadd (\<sigma> tgt) (position_encoding (size1 (\<sigma> tgt)) (size2 (\<sigma> tgt))) = Inr x"
      "shape x = shape (\<sigma> tgt)"
    by (rule iadd_position_encoding_shape)
  note dec = TransformerDecoder_init_Inr [OF assms(1)]
  let ?mem = "deref (\<sigma>(tgt := x)) memory"
  have mem: "shape ?mem = (b, Ls, d)"
    using shape_deref_update [of x \<sigma> tgt memory] x(2) assms(3) by simp
  have "\<exists>t. decoder_loop (decoder_layers dec) 0 ctx x ?mem = Inr t \<and> shape t = (b, Lt, d)"
  proof (cases "n = 0")
    case True
    then show ?thesis using dec x(2) assms(2) by simp
  next
    case False
    then have "Ls = Lt" using assms(4) by simp
    then show ?thesis
      using decoder_loop_ok [of "decoder_layers dec" d h ff rate x b Lt ?mem 0 ctx]
        dec x(2) assms(2) mem by auto
  qed
  then obtain t where t: "decoder_loop (decoder_layers dec) 0 ctx x ?mem = Inr t"
      "shape t = (b, Lt, d)" by blast
  then have "size2 t = d" by (simp add: shape_eq)
  then obtain y where y: "Linear_forward (Linear_init d d (child n ps)) t = Inr y"
      "shape y = (size0 t, size1 t, d)"
    using Linear_forward_ok by blast
  have "shape (softmax y) = (b, Lt, d)"
    using y(2) t(2) by (simp add: softmax_def shape_def)
  moreover have "0 < d \<longrightarrow> (\<forall>k i. row_sum (softmax y) k i = 1)"
    using y(2) softmax_row_sum by (simp add: shape_eq)
  ultimately show ?thesis
    using x(1) t(1) y(1) dec
    by (simp add: TransformerDecoder_forward_def Let_def)
qed

lemma TransformerDecoder_forward_fail:
  assumes "TransformerDecoder_init n d h ff rate ps = Inr dec"
    and "shape (\<sigma> tgt) = (b, Lt, d)" and "shape (deref \<sigma> memory) = (b, Ls, d)"
    and "Ls \<noteq> Lt" and "1 \<le> n"
  shows "snd (TransformerDecoder_forward dec ctx \<sigma> tgt memory) = Inl RuntimeError"
proof -
  obtain x where x: "iadd (\<sigma> tgt) (position_encoding (size1 (\<sigma> tgt)) (size2 (\<sigma> tgt))) = Inr x"
      "shape x = shape (\<sigma> tgt)"
    by (rule iadd_position_encoding_shape)
  note dec = TransformerDecoder_init_Inr [OF assms(1)]
  let ?mem = "deref (\<sigma>(tgt := x)) memory"
  have mem: "shape ?mem = (b, Ls, d)"
    using shape_deref_update [of x \<sigma> tgt memory] x(2) assms(3) by simp
  have "decoder_layers dec \<noteq> []" using dec assms(5) by auto
  then have "decoder_loop (decoder_layers dec) 0 ctx x ?mem = Inl RuntimeError"
    using decoder_loop_fail [of "decoder_layers dec" d h ff rate x b Lt ?mem Ls 0 ctx]
      dec x(2) assms(2,4) mem by auto
  then show ?thesis
    using x(1) by (simp add: TransformerDecoder_forward_def Let_def)
qed

lemma Transformer_forward_ok:
  assumes "Transformer_init ne nd d h ff rate ps = Inr t"
    and "shape (\<sigma> src) = (b, Ls, d)" and "shape (\<sigma> tgt) = (b, Lt, d)"
    and "Ls = Lt \<or> nd = 0"
  shows "\<exists>\<sigma>' out. Transformer_forward t ctx \<sigma> src tgt = (\<sigma>', Inr out) \<and>
           shape out = (b, Lt, d) \<and> (0 < d \<longrightarrow> (\<forall>k i. row_sum out k i = 1))"
proof -
  note t = Transformer_init_Inr [OF assms(1)]
  obtain x m where m: "shape x = (b, Ls, d)"
      "TransformerEncoder_forward (tr_encoder t) (sub 0 ctx) \<sigma> src = (\<sigma>(src := x), Inr m)"
      "m = Stored src \<or> (\<exists>u. m = Temp u \<and> shape u = (b, Ls, d))"
    using TransformerEncoder_forward_ok [of ne d h ff rate "child 0 ps" "tr_encoder t" \<sigma> src b Ls
        "sub 0 ctx"] t assms(2) by blast
  let ?\<sigma>1 = "\<sigma>(src := x)"
  have tg: "shape (?\<sigma>1 tgt) = (b, Lt, d)"
  proof (cases "src = tgt")
    case True
    then show ?thesis using m(1) assms(2,3) by simp
  next
    case False
    then show ?thesis using assms(3) by simp
  qed
  have "shape (deref ?\<sigma>1 m) = (b, Ls, d)"
    using m(1,3) by auto
  then obtain xt out where
      "TransformerDecoder_forward (tr_decoder t) (sub 1 ctx) ?\<sigma>1 tgt m = (?\<sigma>1(tgt := xt), Inr out)"
      "shape out = (b, Lt, d)" "0 < d \<longrightarrow> (\<forall>k i. row_sum out k i = 1)"
    using TransformerDecoder_forward_ok [of nd d h ff rate "child 1 ps" "tr_decoder t" ?\<sigma>1 tgt
        b Lt m Ls "sub 1 ctx"] t tg assms(4) by blast
  with m(2) show ?thesis
    by (simp add: Transformer_forward_def)
qed

lemma Transformer_forward_fail:
  assumes "Transformer_init ne nd d h ff rate ps = Inr t"
    and "shape (\<sigma> src) = (b, Ls, d)" and "shape (\<sigma> tgt) = (b, Lt, d)"
    and "Ls \<noteq> Lt" and "1 \<le> nd"
  shows "snd (Transformer_forward t ctx \<sigma> src tgt) = Inl RuntimeError"
proof -
  note t = Transformer_init_Inr [OF assms(1)]
  obtain x m where m: "shape x = (b, Ls, d)"
      "TransformerEncoder_forward (tr_encoder t) (sub 0 ctx) \<sigma> src = (\<sigma>(src := x), Inr m)"
      "m = Stored src \<or> (\<exists>u. m = Temp u \<and> shape u = (b, Ls, d))"
    using TransformerEncoder_forward_ok [of ne d h ff rate "child 0 ps" "tr_encoder t" \<sigma> src b Ls
        "sub 0 ctx"] t assms(2) by blast
  let ?\<sigma>1 = "\<sigma>(src := x)"
  have "src \<noteq> tgt" using assms(2,3,4) by auto
  then have tg: "shape (?\<sigma>1 tgt) = (b, Lt, d)" using assms(3) by simp
  have "shape (deref ?\<sigma>1 m) = (b, Ls, d)"
    using m(1,3) by auto
  then have "snd (TransformerDecoder_forward (tr_decoder t) (sub 1 ctx) ?\<sigma>1 tgt m)
      = Inl RuntimeError"
    using TransformerDecoder_forward_fail [of nd d h ff rate "child 1 ps" "tr_decoder t" ?\<sigma>1 tgt
        b Lt m Ls "sub 1 ctx"] t tg assms(4,5) by blast
  with m(2) show ?thesis
    by (simp add: Transformer_forward_def)
qed

lemma Transformer_forward_store:
  assumes "Transformer_forward t ctx \<sigma> src tgt = (\<sigma>', Inr out)"
  shows "\<exists>xs xt. iadd (\<sigma> src) (position_encoding (size1 (\<sigma> src)) (size2 (\<sigma> src))) = Inr xs \<and>
           iadd ((\<sigma>(src := xs)) tgt)
             (position_encoding (size1 ((\<sigma>(src := xs)) tgt)) (size2 ((\<sigma>(src := xs)) tgt)))
             = Inr xt \<and>
           \<sigma>' = \<sigma>(src := xs, tgt := xt)"
  using assms
  by (auto simp: Transformer_forward_def TransformerEncoder_forward_def
      TransformerDecoder_forward_def Let_def split: sum.splits if_splits prod.splits)

section \<open>The forward pass of the Transformer\<close>

text \<open>
  Claim C3, as amended. For a constructed Transformer, a source of shape \<open>(b, Ls, d)\<close> and
  a target of shape \<open>(b, Lt, d)\<close> with \<open>d = dim_model\<close>: when \<open>Ls = Lt\<close> the forward pass
  succeeds and returns a tensor of shape \<open>(b, Lt, d)\<close>; when \<open>Ls \<noteq> Lt\<close> and there is at
  least one decoder layer it raises RuntimeError, from the batched product of the
  \<open>(b, Ls, Ls)\<close> attention weights with the \<open>(b, Lt, dv)\<close> projected target in the second
  attention of the first decoder layer.
\<close>

theorem transformer_forward_shape:
  assumes "Transformer_init ne nd d h ff rate ps = Inr t"
    and "shape (\<sigma> src) = (b, Ls, d)" and "shape (\<sigma> tgt) = (b, Lt, d)"
  shows "(Ls = Lt \<longrightarrow>
            (\<exists>\<sigma>' out. Transformer_forward t ctx \<sigma> src tgt = (\<sigma>', Inr out) \<and>
               shape out = (b, Lt, d))) \<and>
         (Ls \<noteq> Lt \<and> 1 \<le> nd \<longrightarrow>
            snd (Transformer_forward t ctx \<sigma> src tgt) = Inl RuntimeError)"
proof (intro conjI impI)
  assume "Ls = Lt"
  then show "\<exists>\<sigma>' out. Transformer_forward t ctx \<sigma> src tgt = (\<sigma>', Inr out) \<and>
      shape out = (b, Lt, d)"
    using Transformer_forward_ok [OF assms, of ctx] by blast
next
  assume "Ls \<noteq> Lt \<and> 1 \<le> nd"
  then show "snd (Transformer_forward t ctx \<sigma> src tgt) = Inl RuntimeError"
    using Transformer_forward_fail [OF assms] by blast
qed

theorem transformer_forward_shape_witness:
  "\<exists>t. Transformer_init 2 2 4 2 8 (1/10) zero_params = Inr t \<and>
     (\<exists>\<sigma>' out. Transformer_forward t eval_ctx (store2 (full 3 5 4 1) (full 3 5 4 2)) 0 1
                  = (\<sigma>', Inr out) \<and> shape out = (3, 5, 4)) \<and>
     snd (Transformer_forward t eval_ctx (store2 (full 3 7 4 1) (full 3 5 4 2)) 0 1)
       = Inl RuntimeError"
proof -
  obtain t where t: "Transformer_init 2 2 4 2 8 (1/10) zero_params = Inr t"
    using Transformer_init_ok [of 2 "1/10" 2 2 4 8 zero_params] by auto
  have "\<exists>\<sigma>' out. Transformer_forward t eval_ctx (store2 (full 3 5 4 1) (full 3 5 4 2)) 0 1
      = (\<sigma>', Inr out) \<and> shape out = (3, 5, 4)"
    using transformer_forward_shape [OF t, of "store2 (full 3 5 4 1) (full 3 5 4 2)" 0 3 5 1 5
        eval_ctx]
    by (simp add: store2_def full_def shape_def)
  moreover have "snd (Transformer_forward t eval_ctx (store2 (full 3 7 4 1) (full 3 5 4 2)) 0 1)
      = Inl RuntimeError"
    using transformer_forward_shape [OF t, of "store2 (full 3 7 4 1) (full 3 5 4 2)" 0 3 7 1 5
        eval_ctx]
    by (simp add: store2_def full_def shape_def)
  ultimately show ?thesis using t by blast
qed

text \<open>
  Claim C3 as stated fails when the two sequence lengths differ: a model with six encoder
  layers, six decoder layers, \<open>dim_model = 512\<close> and eight heads is constructed without
  error, and its forward pass on a source of shape \<open>(64, 10, 512)\<close> and a target of shape
  \<open>(64, 16, 512)\<close> raises.
\<close>

theorem transformer_lengths_differ_counterexample:
  "\<not> isl (Transformer_init 6 6 512 8 2048 (1/10) zero_params) \<and>
   snd (Transformer_forward (projr (Transformer_init 6 6 512 8 2048 (1/10) zero_params))
          eval_ctx (store2 (full 64 10 512 0) (full 64 16 512 0)) 0 1) = Inl RuntimeError"
proof -
  obtain t where t: "Transformer_init 6 6 512 8 2048 (1/10) zero_params = Inr t"
    using Transformer_init_ok [of 8 "1/10" 6 6 512 2048 zero_params] by auto
  have "snd (Transformer_forward t eval_ctx (store2 (full 64 10 512 0) (full 64 16 512 0)) 0 1)
      = Inl RuntimeError"
    using Transformer_forward_fail [OF t, of "store2 (full 64 10 512 0) (full 64 16 512 0)"
        0 64 10 1 16 eval_ctx]
    by (simp add: store2_def full_def shape_def)
  with t show ?thesis by simp
qed

text \<open>
  Claim C5. A Transformer constructed with six encoder layers, six decoder layers,
  \<open>dim_model = 512\<close> and eight heads, on any source and target of shape \<open>(64, 16, 512)\<close>,
  returns an output of shape \<open>(64, 16, 512)\<close> in which every position's channel vector sums
  to 1: the output is the channel-axis softmax of the decoder's final linear projection.
  This holds for every dropout mode and mask, so in particular with dropout disabled.
\<close>

theorem transformer_end_to_end:
  assumes "0 \<le> rate" and "rate \<le> 1"
    and "shape (\<sigma> src) = (64, 16, 512)" and "shape (\<sigma> tgt) = (64, 16, 512)"
  shows "\<exists>t \<sigma>' out. Transformer_init 6 6 512 8 ff rate ps = Inr t \<and>
           Transformer_forward t ctx \<sigma> src tgt = (\<sigma>', Inr out) \<and>
           shape out = (64, 16, 512) \<and>
           (\<forall>n<64. \<forall>i<16. row_sum out n i = 1)"
proof -
  obtain t where t: "Transformer_init 6 6 512 8 ff rate ps = Inr t"
    using Transformer_init_ok [of 8 rate 6 6 512 ff ps] assms(1,2) by auto
  show ?thesis
    using Transformer_forward_ok [OF t assms(3,4), of ctx] t by auto
qed

theorem transformer_end_to_end_witness:
  "\<exists>t \<sigma>' out. Transformer_init 6 6 512 8 2048 (1/10) zero_params = Inr t \<and>
     Transformer_forward t eval_ctx (store2 (full 64 16 512 (1/2)) (full 64 16 512 (1/3))) 0 1
       = (\<sigma>', Inr out) \<and>
     shape out = (64, 16, 512) \<and>
     (\<forall>n<64. \<forall>i<16. row_sum out n i = 1)"
  using transformer_end_to_end [of "1/10" "store2 (full 64 16 512 (1/2)) (full 64 16 512 (1/3))"
      0 1 2048 zero_params eval_ctx]
  by (simp add: store2_def full_def shape_def)

section \<open>The cross-attention of the decoder layer\<close>

lemma Residual_forward_on_last:
  assumes "tensors \<noteq> []"
  shows "Residual_forward_on r ctx (last tensors) tensors = Residual_forward r ctx tensors"
  using assms by (simp add: Residual_forward_on_def Residual_forward_def)

lemma TransformerDecoderLayer_forward_spec_ok:
  assumes "TransformerDecoderLayer_init d h ff rate ps = Inr l"
    and "shape tgt = (b, Lt, d)" and "shape memory = (b, Ls, d)"
  shows "\<exists>out. TransformerDecoderLayer_forward_spec l ctx tgt memory = Inr out \<and>
           shape out = (b, Lt, d)"
proof -
  note l = TransformerDecoderLayer_init_Inr [OF assms(1)]
  obtain t1 where t1: "Residual_forward_on (dec_attention_1 l) (sub 0 ctx) tgt [tgt, tgt, tgt]
      = Inr t1" "shape t1 = (b, Lt, d)"
    using decoder_self_attention_ok [OF assms(1,2), of "sub 0 ctx"]
      Residual_forward_on_last [of "[tgt, tgt, tgt]"] by auto
  let ?m = "MultiHeadAttention_init h d (d div h) (d div h) (child 1 ps)"
  obtain y where y: "MultiHeadAttention_forward ?m t1 memory memory = Inr y"
      "shape y = (b, Lt, d)"
    using MultiHeadAttention_forward_ok [of h t1 b Lt d memory Ls memory] l assms(3) t1(2)
    by blast
  obtain a where a: "add t1 (Dropout_forward \<lparr>drop_p = rate\<rparr> (sub 1 ctx) y) = Inr a"
      "shape a = (b, Lt, d)"
    using add_same_shape [of t1 "Dropout_forward \<lparr>drop_p = rate\<rparr> (sub 1 ctx) y"] t1(2) y(2)
    by auto
  then have "size2 a = d" by (simp add: shape_eq)
  then obtain t2 where t2: "LayerNorm_forward (LayerNorm_init d) a = Inr t2"
      "shape t2 = shape a"
    using LayerNorm_forward_ok by blast
  have s2: "Residual_forward_on (dec_attention_2 l) (sub 1 ctx) t1 [t1, memory, memory] = Inr t2"
    using l y(1) a(1) t2(1)
    by (simp add: Residual_forward_on_def MultiHeadAttention_call_def)
  have "shape t2 = (b, Lt, d)" using t2(2) a(2) by simp
  then obtain out where "Residual_forward_on (dec_feed_forward l) (sub 2 ctx) t2 [t2] = Inr out"
      "shape out = (b, Lt, d)"
    using decoder_feed_forward_ok [OF assms(1), of t2 b Lt "sub 2 ctx"]
      Residual_forward_on_last [of "[t2]"] by auto
  with t1(1) s2 show ?thesis
    by (simp add: TransformerDecoderLayer_forward_spec_def)
qed

text \<open>
  Claim C1, as amended. In every forward pass of a constructed decoder layer, the second
  Residual wrapper is called with \<open>(memory, memory, tgt1)\<close>, where \<open>tgt1\<close> is the
  self-attended target: multi-head attention takes its queries and keys from the encoder
  memory and its values from \<open>tgt1\<close>, and \<open>tgt1\<close> is the residual base.
\<close>

theorem decoder_layer_cross_attention:
  assumes "1 \<le> h" and "0 \<le> rate" and "rate \<le> 1"
  shows "\<exists>l. TransformerDecoderLayer_init d h ff rate ps = Inr l \<and>
           TransformerDecoderLayer_forward l ctx tgt memory =
             (case Residual_forward (dec_attention_1 l) (sub 0 ctx) [tgt, tgt, tgt] of
                Inl e \<Rightarrow> Inl e
              | Inr tgt1 \<Rightarrow>
                  (case
                     (case MultiHeadAttention_forward
                             (MultiHeadAttention_init h d (d div h) (d div h) (child 1 ps))
                             memory memory tgt1 of
                        Inl e \<Rightarrow> Inl e
                      | Inr a \<Rightarrow>
                          (case add tgt1 (Dropout_forward \<lparr>drop_p = rate\<rparr> (sub 1 ctx) a) of
                             Inl e \<Rightarrow> Inl e
                           | Inr s \<Rightarrow> LayerNorm_forward (LayerNorm_init d) s)) of
                     Inl e \<Rightarrow> Inl e
                   | Inr tgt2 \<Rightarrow> Residual_forward (dec_feed_forward l) (sub 2 ctx) [tgt2]))"
proof -
  obtain l where l: "TransformerDecoderLayer_init d h ff rate ps = Inr l"
    using TransformerDecoderLayer_init_ok [OF assms] by blast
  note l' = TransformerDecoderLayer_init_Inr [OF l]
  have cross: "Residual_forward (dec_attention_2 l) c [memory, memory, t1] =
      (case MultiHeadAttention_forward
              (MultiHeadAttention_init h d (d div h) (d div h) (child 1 ps)) memory memory t1 of
         Inl e \<Rightarrow> Inl e
       | Inr a \<Rightarrow>
           (case add t1 (Dropout_forward \<lparr>drop_p = rate\<rparr> c a) of
              Inl e \<Rightarrow> Inl e
            | Inr s \<Rightarrow> LayerNorm_forward (LayerNorm_init d) s))" for c t1
    using l' by (simp add: Residual_forward_def MultiHeadAttention_call_def split: sum.splits)
  show ?thesis
    using l by (simp add: TransformerDecoderLayer_forward_def cross cong: sum.case_cong)
qed

theorem decoder_layer_cross_attention_witness:
  "\<exists>l. TransformerDecoderLayer_init 4 2 8 (1/10) zero_params = Inr l \<and>
     TransformerDecoderLayer_forward l eval_ctx (full 1 3 4 1) (full 1 3 4 2) =
       (case Residual_forward (dec_attention_1 l) (sub 0 eval_ctx)
               [full 1 3 4 1, full 1 3 4 1, full 1 3 4 1] of
          Inl e \<Rightarrow> Inl e
        | Inr tgt1 \<Rightarrow>
            (case
               (case MultiHeadAttention_forward
                       (MultiHeadAttention_init 2 4 (4 div 2) (4 div 2) (child 1 zero_params))
                       (full 1 3 4 2) (full 1 3 4 2) tgt1 of
                  Inl e \<Rightarrow> Inl e
                | Inr a \<Rightarrow>
                    (case add tgt1 (Dropout_forward \<lparr>drop_p = 1/10\<rparr> (sub 1 eval_ctx) a) of
                       Inl e \<Rightarrow> Inl e
                     | Inr s \<Rightarrow> LayerNorm_forward (LayerNorm_init 4) s)) of
               Inl e \<Rightarrow> Inl e
             | Inr tgt2 \<Rightarrow> Residual_forward (dec_feed_forward l) (sub 2 eval_ctx) [tgt2]))"
  using decoder_layer_cross_attention [of 2 "1/10" 4 8 zero_params eval_ctx "full 1 3 4 1"
      "full 1 3 4 2"]
  by simp

text \<open>
  Claim C1 as stated describes another computation: with keys and values from the memory
  and the target as query and residual base, a memory of five positions and a target of
  three give an output, where the code raises.
\<close>

theorem decoder_layer_values_counterexample:
  "\<not> isl (TransformerDecoderLayer_init 4 2 8 (1/10) zero_params) \<and>
   TransformerDecoderLayer_forward
       (projr (TransformerDecoderLayer_init 4 2 8 (1/10) zero_params)) eval_ctx
       (full 1 3 4 1) (full 1 5 4 2) = Inl RuntimeError \<and>
   \<not> isl (TransformerDecoderLayer_forward_spec
       (projr (TransformerDecoderLayer_init 4 2 8 (1/10) zero_params)) eval_ctx
       (full 1 3 4 1) (full 1 5 4 2))"
proof -
  obtain l where l: "TransformerDecoderLayer_init 4 2 8 (1/10) zero_params = Inr l"
    using TransformerDecoderLayer_init_ok [of 2 "1/10" 4 8 zero_params] by auto
  have "TransformerDecoderLayer_forward l eval_ctx (full 1 3 4 1) (full 1 5 4 2)
      = Inl RuntimeError"
    by (rule TransformerDecoderLayer_forward_fail [OF l, of _ 1 3 _ 5])
      (simp_all add: full_def shape_def)
  moreover have "\<exists>out. TransformerDecoderLayer_forward_spec l eval_ctx (full 1 3 4 1)
      (full 1 5 4 2) = Inr out \<and> shape out = (1, 3, 4)"
    by (rule TransformerDecoderLayer_forward_spec_ok [OF l, of _ 1 3 _ 5])
      (simp_all add: full_def shape_def)
  ultimately show ?thesis using l by auto
qed

section \<open>Model construction\<close>

text \<open>
  Claim C7, as amended. For every \<open>num_heads \<ge> 1\<close> and every dropout rate in \<open>[0, 1]\<close>, the
  construction of an encoder layer, of a decoder layer and of a Transformer completes
  without an error for every \<open>dim_model\<close>, divisible by \<open>num_heads\<close> or not: each head
  projects to \<open>dim_model div num_heads\<close> channels, rounded down.
\<close>

theorem construction_without_divisibility_check:
  assumes "1 \<le> h" and "0 \<le> rate" and "rate \<le> 1"
  shows "(\<exists>l. TransformerEncoderLayer_init d h ff rate ps = Inr l \<and>
            res_sublayer (enc_attention l) =
              MultiHeadAttention_call
                (MultiHeadAttention_init h d (d div h) (d div h) (child 0 ps))) \<and>
         (\<exists>l. TransformerDecoderLayer_init d h ff rate ps = Inr l \<and>
            res_sublayer (dec_attention_1 l) =
              MultiHeadAttention_call
                (MultiHeadAttention_init h d (d div h) (d div h) (child 0 ps)) \<and>
            res_sublayer (dec_attention_2 l) =
              MultiHeadAttention_call
                (MultiHeadAttention_init h d (d div h) (d div h) (child 1 ps))) \<and>
         (\<exists>t. Transformer_init ne nd d h ff rate ps = Inr t)"
proof (intro conjI)
  obtain l where l: "TransformerEncoderLayer_init d h ff rate ps = Inr l"
    using TransformerEncoderLayer_init_ok [OF assms] by blast
  show "\<exists>l. TransformerEncoderLayer_init d h ff rate ps = Inr l \<and>
      res_sublayer (enc_attention l) =
        MultiHeadAttention_call (MultiHeadAttention_init h d (d div h) (d div h) (child 0 ps))"
    using TransformerEncoderLayer_init_Inr [OF l] l by auto
next
  obtain l where l: "TransformerDecoderLayer_init d h ff rate ps = Inr l"
    using TransformerDecoderLayer_init_ok [OF assms] by blast
  show "\<exists>l. TransformerDecoderLayer_init d h ff rate ps = Inr l \<and>
      res_sublayer (dec_attention_1 l) =
        MultiHeadAttention_call (MultiHeadAttention_init h d (d div h) (d div h) (child 0 ps)) \<and>
      res_sublayer (dec_attention_2 l) =
        MultiHeadAttention_call (MultiHeadAttention_init h d (d div h) (d div h) (child 1 ps))"
    using TransformerDecoderLayer_init_Inr [OF l] l by auto
next
  show "\<exists>t. Transformer_init ne nd d h ff rate ps = Inr t"
    using Transformer_init_ok [OF assms] by blast
qed

theorem construction_without_divisibility_check_witness:
  "(\<exists>l. TransformerEncoderLayer_init 7 3 8 (1/10) zero_params = Inr l \<and>
      res_sublayer (enc_attention l) =
        MultiHeadAttention_call (MultiHeadAttention_init 3 7 2 2 (child 0 zero_params))) \<and>
   (\<exists>l. TransformerDecoderLayer_init 7 3 8 (1/10) zero_params = Inr l \<and>
      res_sublayer (dec_attention_1 l) =
        MultiHeadAttention_call (MultiHeadAttention_init 3 7 2 2 (child 0 zero_params)) \<and>
      res_sublayer (dec_attention_2 l) =
        MultiHeadAttention_call (MultiHeadAttention_init 3 7 2 2 (child 1 zero_params))) \<and>
   (\<exists>t. Transformer_init 2 2 7 3 8 (1/10) zero_params = Inr t)"
  using construction_without_divisibility_check [of 3 "1/10" 7 8 zero_params 2 2]
  by simp

text \<open>
  Claim C7 as stated fails at the defaults of the layer classes themselves,
  \<open>dim_model = 512\<close> and \<open>num_heads = 6\<close>: 6 does not divide 512 and all three
  constructions complete.
\<close>

theorem construction_defaults_counterexample:
  "(512::nat) mod 6 \<noteq> 0 \<and>
   \<not> isl (TransformerEncoderLayer_init 512 6 2048 (1/10) zero_params) \<and>
   \<not> isl (TransformerDecoderLayer_init 512 6 2048 (1/10) zero_params) \<and>
   \<not> isl (Transformer_init 6 6 512 6 2048 (1/10) zero_params)"
proof -
  obtain e where "TransformerEncoderLayer_init 512 6 2048 (1/10) zero_params = Inr e"
    using TransformerEncoderLayer_init_ok [of 6 "1/10" 512 2048 zero_params] by auto
  moreover obtain d where "TransformerDecoderLayer_init 512 6 2048 (1/10) zero_params = Inr d"
    using TransformerDecoderLayer_init_ok [of 6 "1/10" 512 2048 zero_params] by auto
  moreover obtain t where "Transformer_init 6 6 512 6 2048 (1/10) zero_params = Inr t"
    using Transformer_init_ok [of 6 "1/10" 6 6 512 2048 zero_params] by auto
  ultimately show ?thesis by simp
qed

section \<open>The Residual wrapper\<close>

lemma mean_cong:
  assumes "\<forall>j<size2 x. elem x b i j = elem y b i j" and "size2 x = size2 y"
  shows "mean x b i = mean y b i"
  using assms by (simp add: mean_def)

lemma var_cong:
  assumes "\<forall>j<size2 x. elem x b i j = elem y b i j" and "size2 x = size2 y"
  shows "var x b i = var y b i"
  using assms mean_cong [OF assms] by (simp add: var_def)

lemma LayerNorm_forward_cong:
  assumes "same_values x y"
  shows "rel_sum (=) same_values (LayerNorm_forward n x) (LayerNorm_forward n y)"
proof (cases "size2 x = normalized_shape n")
  case False
  then show ?thesis
    using assms by (simp add: LayerNorm_forward_def same_values_def shape_def)
next
  case True
  have sz: "size0 x = size0 y" "size1 x = size1 y" "size2 x = size2 y"
    using assms by (simp_all add: same_values_def shape_def)
  have "mean x b i = mean y b i \<and> var x b i = var y b i" if "b < size0 x" "i < size1 x" for b i
    using that assms mean_cong [of x b i y] var_cong [of x b i y] sz
    by (simp add: same_values_def)
  then show ?thesis
    using True sz assms
    by (simp add: LayerNorm_forward_def same_values_def shape_def)
qed

lemma add_zero:
  assumes "shape z = shape x" and "\<forall>b<size0 z. \<forall>i<size1 z. \<forall>j<size2 z. elem z b i j = 0"
  shows "\<exists>a. add x z = Inr a \<and> same_values a x"
proof -
  have sz: "size0 z = size0 x" "size1 z = size1 x" "size2 z = size2 x"
    using assms(1) by (simp_all add: shape_def)
  have ix: "bidx n k = k" if "k < n" for n k
    using that by (auto simp: bidx_def)
  show ?thesis
    using assms(2) by (simp add: add_def sz bdim_def same_values_def shape_def ix)
qed

text \<open>
  Claim C8. For every non-empty tuple of argument tensors, \<open>Residual_forward\<close> returns
  \<open>norm (last_argument + dropout (sublayer arguments))\<close>, the last argument being the
  residual base. Consequently, in evaluation mode, with a sublayer that returns an all-zero
  tensor of the shape of the last argument, the result is the layer normalisation of the
  last argument.
\<close>

theorem residual_forward:
  assumes "tensors \<noteq> []"
  shows "Residual_forward r ctx tensors =
           (case res_sublayer r tensors of
              Inl e \<Rightarrow> Inl e
            | Inr s \<Rightarrow>
                (case add (last tensors) (Dropout_forward (res_dropout r) ctx s) of
                   Inl e \<Rightarrow> Inl e
                 | Inr a \<Rightarrow> LayerNorm_forward (res_norm r) a)) \<and>
         (\<not> training ctx \<and> res_sublayer r tensors = Inr z \<and> shape z = shape (last tensors) \<and>
          (\<forall>b<size0 z. \<forall>i<size1 z. \<forall>j<size2 z. elem z b i j = 0) \<longrightarrow>
            rel_sum (=) same_values (Residual_forward r ctx tensors)
              (LayerNorm_forward (res_norm r) (last tensors)))"
proof (intro conjI impI)
  show "Residual_forward r ctx tensors =
      (case res_sublayer r tensors of
         Inl e \<Rightarrow> Inl e
       | Inr s \<Rightarrow>
           (case add (last tensors) (Dropout_forward (res_dropout r) ctx s) of
              Inl e \<Rightarrow> Inl e
            | Inr a \<Rightarrow> LayerNorm_forward (res_norm r) a))"
    using assms by (simp add: Residual_forward_def)
next
  assume h: "\<not> training ctx \<and> res_sublayer r tensors = Inr z \<and> shape z = shape (last tensors) \<and>
      (\<forall>b<size0 z. \<forall>i<size1 z. \<forall>j<size2 z. elem z b i j = 0)"
  then obtain a where a: "add (last tensors) z = Inr a" "same_values a (last tensors)"
    using add_zero [of z "last tensors"] by blast
  have "Residual_forward r ctx tensors = LayerNorm_forward (res_norm r) a"
    using assms h a(1) by (simp add: Residual_forward_def Dropout_forward_def)
  then show "rel_sum (=) same_values (Residual_forward r ctx tensors)
      (LayerNorm_forward (res_norm r) (last tensors))"
    using LayerNorm_forward_cong [OF a(2)] by simp
qed

theorem residual_forward_witness:
  "Residual_forward zero_residual eval_ctx [full 1 2 3 7, full 1 2 3 5] =
     (case res_sublayer zero_residual [full 1 2 3 7, full 1 2 3 5] of
        Inl e \<Rightarrow> Inl e
      | Inr s \<Rightarrow>
          (case add (last [full 1 2 3 7, full 1 2 3 5])
                  (Dropout_forward (res_dropout zero_residual) eval_ctx s) of
             Inl e \<Rightarrow> Inl e
           | Inr a \<Rightarrow> LayerNorm_forward (res_norm zero_residual) a)) \<and>
   rel_sum (=) same_values
     (Residual_forward zero_residual eval_ctx [full 1 2 3 7, full 1 2 3 5])
     (LayerNorm_forward (res_norm zero_residual) (last [full 1 2 3 7, full 1 2 3 5]))"
proof -
  have ne: "[full 1 2 3 7, full 1 2 3 5] \<noteq> []" by simp
  have "\<not> training eval_ctx \<and>
      res_sublayer zero_residual [full 1 2 3 7, full 1 2 3 5] = Inr (full 1 2 3 0) \<and>
      shape (full 1 2 3 0) = shape (last [full 1 2 3 7, full 1 2 3 5]) \<and>
      (\<forall>b<size0 (full 1 2 3 0). \<forall>i<size1 (full 1 2 3 0). \<forall>j<size2 (full 1 2 3 0).
         elem (full 1 2 3 0) b i j = 0)"
    by (simp add: eval_ctx_def zero_residual_def full_def shape_def)
  with residual_forward [OF ne, of zero_residual eval_ctx "full 1 2 3 0"] show ?thesis
    by blast
qed

section \<open>The result as a function of the input values\<close>

lemma TransformerEncoder_forward_unfold:
  "TransformerEncoder_forward enc ctx \<sigma> src =
     (case iadd (\<sigma> src) (position_encoding (size1 (\<sigma> src)) (size2 (\<sigma> src))) of
        Inl e \<Rightarrow> (\<sigma>, Inl e)
      | Inr x \<Rightarrow>
          (\<sigma>(src := x),
           if encoder_layers enc = [] then Inr (Stored src)
           else map_sum id Temp (encoder_loop (encoder_layers enc) 0 ctx x)))"
  by (simp add: TransformerEncoder_forward_def Let_def split: sum.splits)

lemma TransformerDecoder_forward_snd:
  "snd (TransformerDecoder_forward dec ctx \<sigma> tgt memory) =
     (case iadd (\<sigma> tgt) (position_encoding (size1 (\<sigma> tgt)) (size2 (\<sigma> tgt))) of
        Inl e \<Rightarrow> Inl e
      | Inr x \<Rightarrow>
          (case decoder_loop (decoder_layers dec) 0 ctx x (deref (\<sigma>(tgt := x)) memory) of
             Inl e \<Rightarrow> Inl e
           | Inr t \<Rightarrow>
               (case Linear_forward (decoder_linear dec) t of
                  Inl e \<Rightarrow> Inl e
                | Inr y \<Rightarrow> Inr (softmax y))))"
  by (simp add: TransformerDecoder_forward_def Let_def split: sum.splits)

lemma TransformerDecoder_forward_cong:
  assumes "\<And>ls i x m. decoder_loop ls i c1 x m = decoder_loop ls i c2 x m"
    and "\<sigma>1 tgt1 = \<sigma>2 tgt2"
    and "\<And>x. deref (\<sigma>1(tgt1 := x)) m1 = deref (\<sigma>2(tgt2 := x)) m2"
  shows "snd (TransformerDecoder_forward dec c1 \<sigma>1 tgt1 m1)
           = snd (TransformerDecoder_forward dec c2 \<sigma>2 tgt2 m2)"
  unfolding TransformerDecoder_forward_snd using assms
  by (simp cong: sum.case_cong)

lemma Transformer_forward_cong:
  assumes e: "\<And>ls i x. encoder_loop ls i (sub 0 c1) x = encoder_loop ls i (sub 0 c2) x"
    and d: "\<And>ls i x m. decoder_loop ls i (sub 1 c1) x m = decoder_loop ls i (sub 1 c2) x m"
    and "\<sigma>1 src1 = \<sigma>2 src2" and "\<sigma>1 tgt1 = \<sigma>2 tgt2" and "(src1 = tgt1) = (src2 = tgt2)"
  shows "snd (Transformer_forward t c1 \<sigma>1 src1 tgt1) = snd (Transformer_forward t c2 \<sigma>2 src2 tgt2)"
proof -
  let ?pe = "position_encoding (size1 (\<sigma>1 src1)) (size2 (\<sigma>1 src1))"
  show ?thesis
  proof (cases "iadd (\<sigma>1 src1) ?pe")
    case (Inl err)
    then show ?thesis
      using assms(3)
      by (simp add: Transformer_forward_def TransformerEncoder_forward_unfold)
  next
    case (Inr x)
    have tg: "(\<sigma>1(src1 := x)) tgt1 = (\<sigma>2(src2 := x)) tgt2"
      using assms(4,5) by auto
    show ?thesis
    proof (cases "encoder_layers (tr_encoder t) = []")
      case True
      have "deref ((\<sigma>1(src1 := x))(tgt1 := y)) (Stored src1)
          = deref ((\<sigma>2(src2 := x))(tgt2 := y)) (Stored src2)" for y
        using assms(5) by auto
      then have "snd (TransformerDecoder_forward (tr_decoder t) (sub 1 c1) (\<sigma>1(src1 := x)) tgt1
            (Stored src1))
          = snd (TransformerDecoder_forward (tr_decoder t) (sub 1 c2) (\<sigma>2(src2 := x)) tgt2
            (Stored src2))"
        using d tg by (intro TransformerDecoder_forward_cong)
      then show ?thesis
        using Inr True assms(3)
        by (simp add: Transformer_forward_def TransformerEncoder_forward_unfold)
    next
      case False
      note loop = e [of "encoder_layers (tr_encoder t)" 0 x]
      show ?thesis
      proof (cases "encoder_loop (encoder_layers (tr_encoder t)) 0 (sub 0 c2) x")
        case (Inl err)
        then show ?thesis
          using Inr False assms(3) loop
          by (simp add: Transformer_forward_def TransformerEncoder_forward_unfold)
      next
        case res: (Inr u)
        have "snd (TransformerDecoder_forward (tr_decoder t) (sub 1 c1) (\<sigma>1(src1 := x)) tgt1
              (Temp u))
            = snd (TransformerDecoder_forward (tr_decoder t) (sub 1 c2) (\<sigma>2(src2 := x)) tgt2
              (Temp u))"
          using d tg by (intro TransformerDecoder_forward_cong) simp_all
        then show ?thesis
          using Inr False assms(3) loop res
          by (simp add: Transformer_forward_def TransformerEncoder_forward_unfold)
      qed
    qed
  qed
qed

lemma Transformer_forward_values:
  assumes "\<sigma>1 src1 = \<sigma>2 src2" and "\<sigma>1 tgt1 = \<sigma>2 tgt2" and "(src1 = tgt1) = (src2 = tgt2)"
  shows "snd (Transformer_forward t ctx \<sigma>1 src1 tgt1) = snd (Transformer_forward t ctx \<sigma>2 src2 tgt2)"
  using assms by (intro Transformer_forward_cong) simp_all

section \<open>Effects on the caller's tensors\<close>

text \<open>
  Claim C6, as amended. After \<open>Transformer_forward\<close> returns, with source and target two
  distinct objects, each of them holds its previous values plus the positional encoding
  (\<open>sin 1\<close> on the even channels, \<open>cos 1\<close> on the odd ones), which the encoder and the
  decoder add in place; no other object of the store changes (the store holds tensors with
  storage of their own). The result is a function of the input values, the parameters and
  the call context (mode and dropout masks): every call of the same model in the same
  context on inputs with the same values, wherever they are stored, returns the same result.
\<close>

theorem forward_updates_inputs:
  assumes "Transformer_forward t ctx \<sigma> src tgt = (\<sigma>', Inr out)" and "src \<noteq> tgt"
  shows "(\<forall>a. a \<noteq> src \<and> a \<noteq> tgt \<longrightarrow> \<sigma>' a = \<sigma> a) \<and>
         shape (\<sigma>' src) = shape (\<sigma> src) \<and> shape (\<sigma>' tgt) = shape (\<sigma> tgt) \<and>
         (\<forall>b<size0 (\<sigma> src). \<forall>i<size1 (\<sigma> src). \<forall>j<size2 (\<sigma> src).
            elem (\<sigma>' src) b i j = elem (\<sigma> src) b i j + (if even j then sin 1 else cos 1)) \<and>
         (\<forall>b<size0 (\<sigma> tgt). \<forall>i<size1 (\<sigma> tgt). \<forall>j<size2 (\<sigma> tgt).
            elem (\<sigma>' tgt) b i j = elem (\<sigma> tgt) b i j + (if even j then sin 1 else cos 1)) \<and>
         (\<forall>\<sigma>2 src2 tgt2. src2 \<noteq> tgt2 \<and> \<sigma>2 src2 = \<sigma> src \<and> \<sigma>2 tgt2 = \<sigma> tgt \<longrightarrow>
            snd (Transformer_forward t ctx \<sigma>2 src2 tgt2) = Inr out)"
proof -
  obtain xs xt where x:
      "iadd (\<sigma> src) (position_encoding (size1 (\<sigma> src)) (size2 (\<sigma> src))) = Inr xs"
      "iadd ((\<sigma>(src := xs)) tgt)
         (position_encoding (size1 ((\<sigma>(src := xs)) tgt)) (size2 ((\<sigma>(src := xs)) tgt))) = Inr xt"
      "\<sigma>' = \<sigma>(src := xs, tgt := xt)"
    using Transformer_forward_store [OF assms(1)] by blast
  have xt: "iadd (\<sigma> tgt) (position_encoding (size1 (\<sigma> tgt)) (size2 (\<sigma> tgt))) = Inr xt"
    using x(2) assms(2) by simp
  have s: "\<sigma>' src = xs" "\<sigma>' tgt = xt" "\<And>a. a \<noteq> src \<and> a \<noteq> tgt \<longrightarrow> \<sigma>' a = \<sigma> a"
    using x(3) assms(2) by auto
  have fn: "snd (Transformer_forward t ctx \<sigma>2 src2 tgt2) = Inr out"
    if "src2 \<noteq> tgt2 \<and> \<sigma>2 src2 = \<sigma> src \<and> \<sigma>2 tgt2 = \<sigma> tgt" for \<sigma>2 src2 tgt2
    using Transformer_forward_values [of \<sigma>2 src2 \<sigma> src tgt2 tgt t ctx] that assms by simp
  show ?thesis
    using iadd_position_encoding [of "\<sigma> src"] iadd_position_encoding [of "\<sigma> tgt"] x(1) xt s fn
    by auto
qed

theorem forward_updates_inputs_witness:
  "\<exists>t \<sigma>' out. Transformer_init 1 1 2 1 4 (1/10) zero_params = Inr t \<and>
     Transformer_forward t eval_ctx (store2 (full 1 1 2 0) (full 1 1 2 3)) 0 1 = (\<sigma>', Inr out) \<and>
     (\<forall>a. a \<noteq> 0 \<and> a \<noteq> 1 \<longrightarrow> \<sigma>' a = store2 (full 1 1 2 0) (full 1 1 2 3) a) \<and>
     shape (\<sigma>' 0) = (1, 1, 2) \<and> shape (\<sigma>' 1) = (1, 1, 2) \<and>
     elem (\<sigma>' 0) 0 0 0 = sin 1 \<and> elem (\<sigma>' 0) 0 0 1 = cos 1 \<and>
     elem (\<sigma>' 1) 0 0 0 = 3 + sin 1 \<and> elem (\<sigma>' 1) 0 0 1 = 3 + cos 1 \<and>
     snd (Transformer_forward t eval_ctx (store2 (full 1 1 2 3) (full 1 1 2 0)) 1 0) = Inr out"
proof -
  let ?\<sigma> = "store2 (full 1 1 2 0) (full 1 1 2 3)"
  obtain t where t: "Transformer_init 1 1 2 1 4 (1/10) zero_params = Inr t"
    using Transformer_init_ok [of 1 "1/10" 1 1 2 4 zero_params] by auto
  have sh: "shape (?\<sigma> 0) = (1, 1, 2)" "shape (?\<sigma> 1) = (1, 1, 2)"
    by (simp_all add: store2_def full_def shape_def)
  obtain \<sigma>' out where f: "Transformer_forward t eval_ctx ?\<sigma> 0 1 = (\<sigma>', Inr out)"
    using Transformer_forward_ok [OF t sh, of eval_ctx] by auto
  have ne: "(0::nat) \<noteq> 1" by simp
  note u = forward_updates_inputs [OF f ne]
  have "elem (\<sigma>' 0) 0 0 0 = sin 1" "elem (\<sigma>' 0) 0 0 1 = cos 1"
      "elem (\<sigma>' 1) 0 0 0 = 3 + sin 1" "elem (\<sigma>' 1) 0 0 1 = 3 + cos 1"
    using u by (simp_all add: store2_def full_def)
  moreover have "shape (\<sigma>' 0) = (1, 1, 2)" "shape (\<sigma>' 1) = (1, 1, 2)"
    using u sh by simp_all
  moreover have "(1::nat) \<noteq> 0 \<and> store2 (full 1 1 2 3) (full 1 1 2 0) 1 = ?\<sigma> 0 \<and>
      store2 (full 1 1 2 3) (full 1 1 2 0) 0 = ?\<sigma> 1"
    by (simp add: store2_def)
  then have "snd (Transformer_forward t eval_ctx (store2 (full 1 1 2 3) (full 1 1 2 0)) 1 0)
      = Inr out"
    using u by blast
  ultimately show ?thesis
    using t f u by blast
qed

text \<open>
  Claim C6 as stated fails: after a forward pass that returns, the source tensor, all
  zero before the call, holds \<open>sin 1\<close> in its first entry.
\<close>

theorem forward_mutates_source_counterexample:
  "\<not> isl (Transformer_init 1 1 2 1 4 (1/10) zero_params) \<and>
   \<not> isl (snd (Transformer_forward (projr (Transformer_init 1 1 2 1 4 (1/10) zero_params))
                eval_ctx (store2 (full 1 1 2 0) (full 1 1 2 0)) 0 1)) \<and>
   elem (store2 (full 1 1 2 0) (full 1 1 2 0) 0) 0 0 0 = 0 \<and>
   elem (fst (Transformer_forward (projr (Transformer_init 1 1 2 1 4 (1/10) zero_params))
                eval_ctx (store2 (full 1 1 2 0) (full 1 1 2 0)) 0 1) 0) 0 0 0 = sin 1 \<and>
   sin (1::real) \<noteq> 0"
proof -
  let ?\<sigma> = "store2 (full 1 1 2 0) (full 1 1 2 0)"
  obtain t where t: "Transformer_init 1 1 2 1 4 (1/10) zero_params = Inr t"
    using Transformer_init_ok [of 1 "1/10" 1 1 2 4 zero_params] by auto
  have sh: "shape (?\<sigma> 0) = (1, 1, 2)" "shape (?\<sigma> 1) = (1, 1, 2)"
    by (simp_all add: store2_def full_def shape_def)
  obtain \<sigma>' out where f: "Transformer_forward t eval_ctx ?\<sigma> 0 1 = (\<sigma>', Inr out)"
    using Transformer_forward_ok [OF t sh, of eval_ctx] by auto
  obtain xs xt where x:
      "iadd (?\<sigma> 0) (position_encoding (size1 (?\<sigma> 0)) (size2 (?\<sigma> 0))) = Inr xs"
      "\<sigma>' = ?\<sigma>(0 := xs, 1 := xt)"
    using Transformer_forward_store [OF f] by blast
  have "elem xs 0 0 0 = elem (?\<sigma> 0) 0 0 0 + sin 1"
    using iadd_position_encoding [of "?\<sigma> 0"] x(1) by (simp add: store2_def full_def)
  then have "elem (\<sigma>' 0) 0 0 0 = sin 1"
    using x(2) by (simp add: store2_def full_def)
  then show ?thesis
    using t f sin_one_pos by (simp add: store2_def full_def)
qed

section \<open>Determinism in evaluation mode\<close>

lemma Dropout_forward_eval: "\<not> training ctx \<Longrightarrow> Dropout_forward d ctx x = x"
  by (simp add: Dropout_forward_def)

lemma training_sub [simp]: "training (sub i ctx) = training ctx"
  by (simp add: sub_def)

lemma Residual_forward_eval:
  assumes "\<not> training c1" and "\<not> training c2"
  shows "Residual_forward r c1 tensors = Residual_forward r c2 tensors"
  using assms by (simp add: Residual_forward_def Dropout_forward_eval cong: sum.case_cong)

lemma TransformerEncoderLayer_forward_eval:
  assumes "\<not> training c1" and "\<not> training c2"
  shows "TransformerEncoderLayer_forward l c1 src = TransformerEncoderLayer_forward l c2 src"
proof -
  have "Residual_forward r (sub i c1) ts = Residual_forward r (sub i c2) ts" for r i ts
    using assms by (intro Residual_forward_eval) simp_all
  then show ?thesis
    by (simp add: TransformerEncoderLayer_forward_def cong: sum.case_cong)
qed

lemma TransformerDecoderLayer_forward_eval:
  assumes "\<not> training c1" and "\<not> training c2"
  shows "TransformerDecoderLayer_forward l c1 tgt memory
           = TransformerDecoderLayer_forward l c2 tgt memory"
proof -
  have "Residual_forward r (sub i c1) ts = Residual_forward r (sub i c2) ts" for r i ts
    using assms by (intro Residual_forward_eval) simp_all
  then show ?thesis
    by (simp add: TransformerDecoderLayer_forward_def cong: sum.case_cong)
qed

lemma encoder_loop_eval:
  assumes "\<not> training c1" and "\<not> training c2"
  shows "encoder_loop ls i c1 src = encoder_loop ls i c2 src"
proof (induction ls arbitrary: i src)
  case Nil
  show ?case by simp
next
  case (Cons l ls)
  have "TransformerEncoderLayer_forward l (sub i c1) src
      = TransformerEncoderLayer_forward l (sub i c2) src"
    using assms by (intro TransformerEncoderLayer_forward_eval) simp_all
  then show ?case
    using Cons.IH by (simp split: sum.splits)
qed

lemma decoder_loop_eval:
  assumes "\<not> training c1" and "\<not> training c2"
  shows "decoder_loop ls i c1 tgt memory = decoder_loop ls i c2 tgt memory"
proof (induction ls arbitrary: i tgt)
  case Nil
  show ?case by simp
next
  case (Cons l ls)
  have "TransformerDecoderLayer_forward l (sub i c1) tgt memory
      = TransformerDecoderLayer_forward l (sub i c2) tgt memory"
    using assms by (intro TransformerDecoderLayer_forward_eval) simp_all
  then show ?case
    using Cons.IH by (simp split: sum.splits)
qed


lemma Transformer_forward_eval:
  assumes "\<not> training c1" and "\<not> training c2"
    and "\<sigma>1 src1 = \<sigma>2 src2" and "\<sigma>1 tgt1 = \<sigma>2 tgt2" and "(src1 = tgt1) = (src2 = tgt2)"
  shows "snd (Transformer_forward t c1 \<sigma>1 src1 tgt1) = snd (Transformer_forward t c2 \<sigma>2 src2 tgt2)"
  using assms
  by (intro Transformer_forward_cong encoder_loop_eval decoder_loop_eval) simp_all

text \<open>
  Claim C9, as amended. Two Transformer instances constructed with the same configuration
  and the same parameter values, run in evaluation mode on source and target inputs that
  hold the same values when each call starts, with source and target the same object in
  both calls or in neither, produce identical results, whatever random dropout masks the
  two calls draw and wherever the inputs are stored.
\<close>

theorem forward_deterministic:
  assumes "Transformer_init ne nd d h ff rate ps = Inr t1"
    and "Transformer_init ne nd d h ff rate ps = Inr t2"
    and "\<not> training c1" and "\<not> training c2"
    and "\<sigma>1 src1 = \<sigma>2 src2" and "\<sigma>1 tgt1 = \<sigma>2 tgt2" and "(src1 = tgt1) = (src2 = tgt2)"
  shows "snd (Transformer_forward t1 c1 \<sigma>1 src1 tgt1) = snd (Transformer_forward t2 c2 \<sigma>2 src2 tgt2)"
proof -
  have "t1 = t2" using assms(1,2) by simp
  then show ?thesis
    using Transformer_forward_eval [OF assms(3-7)] by simp
qed

theorem forward_deterministic_witness:
  "\<exists>t1 t2. Transformer_init 1 1 2 1 4 (1/10) zero_params = Inr t1 \<and>
     Transformer_init 1 1 2 1 4 (1/10) zero_params = Inr t2 \<and>
     snd (Transformer_forward t1 eval_ctx (store2 (full 1 3 2 5) (full 1 3 2 7)) 0 1)
       = snd (Transformer_forward t2 (train_ctx\<lparr>training := False\<rparr>)
                (store2 (full 1 3 2 7) (full 1 3 2 5)) 1 0) \<and>
     \<not> isl (snd (Transformer_forward t1 eval_ctx (store2 (full 1 3 2 5) (full 1 3 2 7)) 0 1))"
proof -
  obtain t where t: "Transformer_init 1 1 2 1 4 (1/10) zero_params = Inr t"
    using Transformer_init_ok [of 1 "1/10" 1 1 2 4 zero_params] by auto
  have "snd (Transformer_forward t eval_ctx (store2 (full 1 3 2 5) (full 1 3 2 7)) 0 1)
      = snd (Transformer_forward t (train_ctx\<lparr>training := False\<rparr>)
               (store2 (full 1 3 2 7) (full 1 3 2 5)) 1 0)"
    by (rule forward_deterministic [OF t t]) (simp_all add: eval_ctx_def store2_def)
  moreover have "\<exists>\<sigma>' out. Transformer_forward t eval_ctx (store2 (full 1 3 2 5) (full 1 3 2 7)) 0 1
      = (\<sigma>', Inr out) \<and> shape out = (1, 3, 2) \<and> (0 < (2::nat) \<longrightarrow> (\<forall>k i. row_sum out k i = 1))"
    by (rule Transformer_forward_ok [OF t, of _ _ 1 3 _ 3])
      (simp_all add: store2_def full_def shape_def)
  then have "\<not> isl (snd (Transformer_forward t eval_ctx
      (store2 (full 1 3 2 5) (full 1 3 2 7)) 0 1))"
    by auto
  ultimately show ?thesis using t by blast
qed

section \<open>The same tensors fed to two instances\<close>

lemma logistic_inj:
  assumes "exp a / (exp a + 1) = exp b / (exp b + 1)"
  shows "a = (b::real)"
proof -
  have "exp a + 1 \<noteq> 0" "exp b + 1 \<noteq> 0"
    using exp_gt_zero [of a] exp_gt_zero [of b] by linarith+
  then have "exp a * (exp b + 1) = exp b * (exp a + 1)"
    using assms by (simp add: frac_eq_eq)
  then have "exp a = exp b" by (simp add: algebra_simps)
  then show ?thesis by simp
qed

lemma sums2: "(\<Sum>k<(2::nat). f k) = f 0 + (f 1 :: real)"
  by (simp add: numeral_2_eq_2)

lemma T0_init:
  "Transformer_init 0 0 2 1 4 (1/10) probe_params =
     Inr \<lparr> tr_encoder = \<lparr> encoder_layers = [] \<rparr>,
           tr_decoder = \<lparr> decoder_layers = [],
                          decoder_linear = Linear_init 2 2 (child 0 (child 1 probe_params)) \<rparr> \<rparr>"
  by (simp add: Transformer_init_def TransformerEncoder_init_def TransformerDecoder_init_def)

lemma forward_no_layers:
  assumes "shape (\<sigma> src) = (1, 1, 2)" and "shape (\<sigma> tgt) = (1, 1, 2)" and "src \<noteq> tgt"
  shows "\<exists>\<sigma>' out. Transformer_forward (projr (Transformer_init 0 0 2 1 4 (1/10) probe_params))
            ctx \<sigma> src tgt = (\<sigma>', Inr out) \<and>
          shape (\<sigma>' src) = (1, 1, 2) \<and> shape (\<sigma>' tgt) = (1, 1, 2) \<and>
          elem (\<sigma>' tgt) 0 0 0 = elem (\<sigma> tgt) 0 0 0 + sin 1 \<and>
          elem out 0 0 0
            = exp (elem (\<sigma> tgt) 0 0 0 + sin 1) / (exp (elem (\<sigma> tgt) 0 0 0 + sin 1) + 1)"
proof -
  let ?t = "projr (Transformer_init 0 0 2 1 4 (1/10) probe_params)"
  obtain xs where xs: "iadd (\<sigma> src) (position_encoding (size1 (\<sigma> src)) (size2 (\<sigma> src))) = Inr xs"
      "shape xs = shape (\<sigma> src)"
    by (rule iadd_position_encoding_shape)
  obtain xt where xt: "iadd (\<sigma> tgt) (position_encoding (size1 (\<sigma> tgt)) (size2 (\<sigma> tgt))) = Inr xt"
      "shape xt = shape (\<sigma> tgt)"
      "\<forall>b<size0 (\<sigma> tgt). \<forall>i<size1 (\<sigma> tgt). \<forall>j<size2 (\<sigma> tgt).
         elem xt b i j = elem (\<sigma> tgt) b i j + (if even j then sin 1 else cos 1)"
    using iadd_position_encoding [of "\<sigma> tgt"] by blast
  have sz: "size0 (\<sigma> tgt) = 1" "size1 (\<sigma> tgt) = 1" "size2 (\<sigma> tgt) = 2" "size2 xt = 2"
    using assms(2) xt(2) by (simp_all add: shape_def)
  have e0: "elem xt 0 0 0 = elem (\<sigma> tgt) 0 0 0 + sin 1"
    using xt(3) sz by simp
  let ?y = "\<lparr> size0 = size0 xt, size1 = size1 xt, size2 = 2,
       elem = (\<lambda>b i j. (\<Sum>k<2. elem xt b i k * fst (probe_params [1, 0]) j k)
                        + snd (probe_params [1, 0]) j) \<rparr>"
  have lin: "Linear_forward (Linear_init 2 2 (child 0 (child 1 probe_params))) xt = Inr ?y"
    using sz by (simp add: Linear_forward_def Linear_init_def child_def)
  have tt: "?t = \<lparr> tr_encoder = \<lparr> encoder_layers = [] \<rparr>,
      tr_decoder = \<lparr> decoder_layers = [],
        decoder_linear = Linear_init 2 2 (child 0 (child 1 probe_params)) \<rparr> \<rparr>"
    unfolding T0_init by simp
  have f: "Transformer_forward ?t ctx \<sigma> src tgt = (\<sigma>(src := xs, tgt := xt), Inr (softmax ?y))"
    unfolding tt using xs(1) xt(1) assms(3) lin
    by (simp add: Transformer_forward_def TransformerEncoder_forward_unfold
        TransformerDecoder_forward_def Let_def)
  have "elem (softmax ?y) 0 0 0 = exp (elem xt 0 0 0) / (exp (elem xt 0 0 0) + 1)"
    by (simp add: softmax_def sums2 probe_params_def)
  then show ?thesis
    using f e0 assms xs(2) xt(2) by simp
qed

lemma squash_inj:
  assumes "squash u = squash v"
  shows "u = v"
proof -
  let ?e = "1 / 100000 :: real"
  have pu: "0 < sqrt (u\<^sup>2 + ?e)" and pv: "0 < sqrt (v\<^sup>2 + ?e)"
    by (simp_all add: add_nonneg_pos)
  have eq: "u * sqrt (v\<^sup>2 + ?e) = v * sqrt (u\<^sup>2 + ?e)"
    using assms pu pv by (simp add: squash_def frac_eq_eq)
  then have "(u * sqrt (v\<^sup>2 + ?e))\<^sup>2 = (v * sqrt (u\<^sup>2 + ?e))\<^sup>2"
    by simp
  then have "u\<^sup>2 * (v\<^sup>2 + ?e) = v\<^sup>2 * (u\<^sup>2 + ?e)"
    by (simp add: power_mult_distrib add_nonneg_nonneg)
  then have "u\<^sup>2 = v\<^sup>2"
    by (simp add: algebra_simps)
  then have "sqrt (u\<^sup>2 + ?e) = sqrt (v\<^sup>2 + ?e)"
    by simp
  with eq pu show ?thesis by simp
qed

lemma sin_one_neq_cos_one: "sin (1::real) \<noteq> cos 1"
proof
  assume eq: "sin (1::real) = cos 1"
  have "cos (2 * (1::real)) = (cos 1)\<^sup>2 - (sin 1)\<^sup>2"
    by (rule cos_double)
  then have "cos (2::real) = 0"
    using eq by simp
  then show False
    using cos_two_less_zero by simp
qed

lemma Linear_forward_zero:
  assumes "ps [] = ((\<lambda>_ _. 0), (\<lambda>_. 0))" and "Linear_forward (Linear_init n m ps) x = Inr y"
  shows "elem y b i j = 0"
  using assms by (auto simp: Linear_forward_def Linear_init_def split: if_splits)

lemma MultiHeadAttention_forward_zero:
  assumes "ps [h] = ((\<lambda>_ _. 0), (\<lambda>_. 0))"
    and "MultiHeadAttention_forward (MultiHeadAttention_init h d dk dv ps) q k v = Inr z"
  shows "elem z b i j = 0"
proof -
  obtain c where "Linear_forward (Linear_init (h * dv) d (child h ps)) c = Inr z"
    using assms(2)
    by (auto simp: MultiHeadAttention_forward_def MultiHeadAttention_init_def split: sum.splits)
  moreover have "child h ps [] = ((\<lambda>_ _. 0), (\<lambda>_. 0))"
    using assms(1) by (simp add: child_def)
  ultimately show ?thesis
    using Linear_forward_zero by blast
qed

lemma FeedForward_forward_zero:
  assumes "ps [2] = ((\<lambda>_ _. 0), (\<lambda>_. 0))"
    and "FeedForward_forward (feed_forward d ff ps) x = Inr z"
  shows "elem z b i j = 0"
proof -
  obtain c where "Linear_forward (Linear_init ff d (child 2 ps)) c = Inr z"
    using assms(2)
    by (auto simp: FeedForward_forward_def feed_forward_def split: sum.splits)
  moreover have "child 2 ps [] = ((\<lambda>_ _. 0), (\<lambda>_. 0))"
    using assms(1) by (simp add: child_def)
  ultimately show ?thesis
    using Linear_forward_zero by blast
qed

lemma LayerNorm_two_channels:
  assumes "shape x = (1, 1, 2)"
  shows "\<exists>y. LayerNorm_forward (LayerNorm_init 2) x = Inr y \<and> shape y = (1, 1, 2) \<and>
           elem y 0 0 0 = squash (spread x) \<and> spread y = squash (spread x)"
proof -
  let ?a = "elem x 0 0 0" and ?b = "elem x 0 0 1"
  have sz: "size0 x = 1" "size1 x = 1" "size2 x = 2"
    using assms by (simp_all add: shape_eq)
  have m: "mean x 0 0 = (?a + ?b) / 2"
    by (simp add: mean_def sz sums2)
  have da: "?a - mean x 0 0 = spread x" and db: "?b - mean x 0 0 = - spread x"
    by (simp_all add: m spread_def field_simps)
  have "var x 0 0 = ((?a - mean x 0 0)\<^sup>2 + (?b - mean x 0 0)\<^sup>2) / 2"
    by (simp add: var_def sz sums2)
  then have v: "var x 0 0 = (spread x)\<^sup>2"
    unfolding da db by simp
  let ?y = "x\<lparr> elem := (\<lambda>b i j.
      (elem x b i j - mean x b i) / sqrt (var x b i + 1 / 100000) * 1 + 0) \<rparr>"
  have f: "LayerNorm_forward (LayerNorm_init 2) x = Inr ?y"
    by (simp add: LayerNorm_forward_def LayerNorm_init_def sz)
  have y0': "elem ?y 0 0 0 = (?a - mean x 0 0) / sqrt (var x 0 0 + 1 / 100000)"
    and y1': "elem ?y 0 0 1 = (?b - mean x 0 0) / sqrt (var x 0 0 + 1 / 100000)"
    by simp_all
  have y0: "elem ?y 0 0 0 = squash (spread x)"
    unfolding y0' da v squash_def by simp
  have y1: "elem ?y 0 0 1 = - squash (spread x)"
    unfolding y1' db v squash_def by simp
  have "spread ?y = squash (spread x)"
    unfolding spread_def [of ?y] y0 y1 by simp
  then show ?thesis
    using f y0 sz by (simp add: shape_def)
qed

lemma Residual_forward_zero_sublayer:
  assumes "res_norm r = LayerNorm_init 2" and "\<not> training ctx" and "tensors \<noteq> []"
    and "res_sublayer r tensors = Inr z" and "shape z = (1, 1, 2)"
    and "\<And>b i j. elem z b i j = 0" and "shape (last tensors) = (1, 1, 2)"
  shows "\<exists>y. Residual_forward r ctx tensors = Inr y \<and> shape y = (1, 1, 2) \<and>
           elem y 0 0 0 = squash (spread (last tensors)) \<and>
           spread y = squash (spread (last tensors))"
proof -
  obtain a where a: "add (last tensors) z = Inr a" "same_values a (last tensors)"
    using add_zero [of z "last tensors"] assms(5,6,7) by auto
  have sa: "shape a = (1, 1, 2)"
    using a(2) assms(7) by (simp add: same_values_def)
  have sz: "0 < size0 a" "0 < size1 a" "0 < size2 a" "1 < size2 a"
    using sa by (simp_all add: shape_eq)
  have "\<forall>b<size0 a. \<forall>i<size1 a. \<forall>j<size2 a. elem a b i j = elem (last tensors) b i j"
    using a(2) by (simp add: same_values_def)
  then have "elem a 0 0 0 = elem (last tensors) 0 0 0" "elem a 0 0 1 = elem (last tensors) 0 0 1"
    using sz by blast+
  then have "spread a = spread (last tensors)"
    by (simp add: spread_def)
  moreover obtain y where "LayerNorm_forward (LayerNorm_init 2) a = Inr y" "shape y = (1, 1, 2)"
      "elem y 0 0 0 = squash (spread a)" "spread y = squash (spread a)"
    using LayerNorm_two_channels [OF sa] by blast
  ultimately show ?thesis
    using assms(1,2,3,4) a(1) by (simp add: Residual_forward_def Dropout_forward_def)
qed

lemma TransformerDecoderLayer_forward_zero:
  assumes l: "TransformerDecoderLayer_init 2 h ff rate ps = Inr l"
    and z: "\<And>path. path \<noteq> [] \<Longrightarrow> ps path = ((\<lambda>_ _. 0), (\<lambda>_. 0))"
    and ev: "\<not> training ctx"
    and "shape tgt = (1, 1, 2)" and "shape memory = (1, 1, 2)"
  shows "\<exists>out. TransformerDecoderLayer_forward l ctx tgt memory = Inr out \<and>
           shape out = (1, 1, 2) \<and>
           elem out 0 0 0 = squash (squash (squash (spread tgt)))"
proof -
  note l' = TransformerDecoderLayer_init_Inr [OF l]
  have c: "\<not> training (sub i ctx)" for i
    using ev by simp
  let ?m1 = "MultiHeadAttention_init h 2 (2 div h) (2 div h) (child 0 ps)"
  let ?m2 = "MultiHeadAttention_init h 2 (2 div h) (2 div h) (child 1 ps)"
  have zc: "child a ps [k] = ((\<lambda>_ _. 0), (\<lambda>_. 0))" for a k
    using z by (simp add: child_def)
  obtain z1 where z1: "MultiHeadAttention_forward ?m1 tgt tgt tgt = Inr z1" "shape z1 = (1, 1, 2)"
    using MultiHeadAttention_forward_ok [of h tgt 1 1 2 tgt 1 tgt] l' assms(4) by blast
  have "\<exists>t1. Residual_forward (dec_attention_1 l) (sub 0 ctx) [tgt, tgt, tgt] = Inr t1 \<and>
      shape t1 = (1, 1, 2) \<and> elem t1 0 0 0 = squash (spread (last [tgt, tgt, tgt])) \<and>
      spread t1 = squash (spread (last [tgt, tgt, tgt]))"
    by (rule Residual_forward_zero_sublayer [where z = z1])
      (use l' z1 c assms(4) MultiHeadAttention_forward_zero [OF zc z1(1)]
        in \<open>auto simp: MultiHeadAttention_call_def\<close>)
  then obtain t1 where t1:
      "Residual_forward (dec_attention_1 l) (sub 0 ctx) [tgt, tgt, tgt] = Inr t1"
      "shape t1 = (1, 1, 2)" "spread t1 = squash (spread tgt)"
    by auto
  obtain z2 where z2: "MultiHeadAttention_forward ?m2 memory memory t1 = Inr z2"
      "shape z2 = (1, 1, 2)"
    using MultiHeadAttention_forward_ok [of h memory 1 1 2 memory 1 t1] l' assms(5) t1(2)
    by blast
  have "\<exists>t2. Residual_forward (dec_attention_2 l) (sub 1 ctx) [memory, memory, t1] = Inr t2 \<and>
      shape t2 = (1, 1, 2) \<and> elem t2 0 0 0 = squash (spread (last [memory, memory, t1])) \<and>
      spread t2 = squash (spread (last [memory, memory, t1]))"
    by (rule Residual_forward_zero_sublayer [where z = z2])
      (use l' z2 c t1(2) MultiHeadAttention_forward_zero [OF zc z2(1)]
        in \<open>auto simp: MultiHeadAttention_call_def\<close>)
  then obtain t2 where t2:
      "Residual_forward (dec_attention_2 l) (sub 1 ctx) [memory, memory, t1] = Inr t2"
      "shape t2 = (1, 1, 2)" "spread t2 = squash (spread t1)"
    by auto
  obtain z3 where z3: "FeedForward_forward (feed_forward 2 ff (child 2 ps)) t2 = Inr z3"
      "shape z3 = (1, 1, 2)"
    using FeedForward_forward_ok [OF t2(2)] by blast
  have "\<exists>t3. Residual_forward (dec_feed_forward l) (sub 2 ctx) [t2] = Inr t3 \<and>
      shape t3 = (1, 1, 2) \<and> elem t3 0 0 0 = squash (spread (last [t2])) \<and>
      spread t3 = squash (spread (last [t2]))"
    by (rule Residual_forward_zero_sublayer [where z = z3])
      (use l' z3 c t2(2) FeedForward_forward_zero [OF zc z3(1)]
        in \<open>auto simp: FeedForward_call_def\<close>)
  then obtain t3 where t3:
      "Residual_forward (dec_feed_forward l) (sub 2 ctx) [t2] = Inr t3"
      "shape t3 = (1, 1, 2)" "elem t3 0 0 0 = squash (spread t2)"
    by auto
  show ?thesis
    using t1 t2 t3 by (simp add: TransformerDecoderLayer_forward_def)
qed


lemma T1_init:
  "\<exists>le ld. Transformer_init 1 1 2 1 4 (1/10) probe_params =
     Inr \<lparr> tr_encoder = \<lparr> encoder_layers = [le] \<rparr>,
           tr_decoder = \<lparr> decoder_layers = [ld],
                          decoder_linear = Linear_init 2 2 (child 1 (child 1 probe_params)) \<rparr> \<rparr> \<and>
     TransformerDecoderLayer_init 2 1 4 (1/10) (child 0 (child 1 probe_params)) = Inr ld"
proof -
  obtain le where le: "TransformerEncoderLayer_init 2 1 4 (1/10) (child 0 (child 0 probe_params))
      = Inr le"
    using TransformerEncoderLayer_init_ok [of 1 "1/10" 2 4] by auto
  obtain ld where ld: "TransformerDecoderLayer_init 2 1 4 (1/10) (child 0 (child 1 probe_params))
      = Inr ld"
    using TransformerDecoderLayer_init_ok [of 1 "1/10" 2 4] by auto
  have "Transformer_init 1 1 2 1 4 (1/10) probe_params =
     Inr \<lparr> tr_encoder = \<lparr> encoder_layers = [le] \<rparr>,
           tr_decoder = \<lparr> decoder_layers = [ld],
                          decoder_linear = Linear_init 2 2 (child 1 (child 1 probe_params)) \<rparr> \<rparr>"
    using le ld
    by (simp add: Transformer_init_def TransformerEncoder_init_def TransformerDecoder_init_def)
  with ld show ?thesis by blast
qed

lemma forward_one_layer:
  assumes "shape (\<sigma> src) = (1, 1, 2)" and "shape (\<sigma> tgt) = (1, 1, 2)" and "src \<noteq> tgt"
    and "\<not> training ctx"
  shows "\<exists>\<sigma>' out. Transformer_forward (projr (Transformer_init 1 1 2 1 4 (1/10) probe_params))
            ctx \<sigma> src tgt = (\<sigma>', Inr out) \<and>
          shape (\<sigma>' src) = (1, 1, 2) \<and> shape (\<sigma>' tgt) = (1, 1, 2) \<and>
          spread (\<sigma>' tgt) = spread (\<sigma> tgt) + (sin 1 - cos 1) / 2 \<and>
          elem out 0 0 0
            = logistic (squash (squash (squash (spread (\<sigma> tgt) + (sin 1 - cos 1) / 2))))"
proof -
  let ?t = "projr (Transformer_init 1 1 2 1 4 (1/10) probe_params)"
  let ?lin = "Linear_init 2 2 (child 1 (child 1 probe_params))"
  obtain le ld where init: "Transformer_init 1 1 2 1 4 (1/10) probe_params =
      Inr \<lparr> tr_encoder = \<lparr> encoder_layers = [le] \<rparr>,
            tr_decoder = \<lparr> decoder_layers = [ld], decoder_linear = ?lin \<rparr> \<rparr>"
    and ld: "TransformerDecoderLayer_init 2 1 4 (1/10) (child 0 (child 1 probe_params)) = Inr ld"
    using T1_init by blast
  have tt: "?t = \<lparr> tr_encoder = \<lparr> encoder_layers = [le] \<rparr>,
      tr_decoder = \<lparr> decoder_layers = [ld], decoder_linear = ?lin \<rparr> \<rparr>"
    unfolding init by simp
  have enc: "TransformerEncoder_init 1 2 1 4 (1/10) (child 0 probe_params)
      = Inr \<lparr> encoder_layers = [le] \<rparr>"
    using Transformer_init_Inr [OF init] by simp
  obtain xs m where m: "shape xs = (1, 1, 2)"
      "TransformerEncoder_forward \<lparr> encoder_layers = [le] \<rparr> (sub 0 ctx) \<sigma> src
         = (\<sigma>(src := xs), Inr m)"
      "m = Stored src \<or> (\<exists>u. m = Temp u \<and> shape u = (1, 1, 2))"
    using TransformerEncoder_forward_ok [of 1 2 1 4 "1/10" "child 0 probe_params"
        "\<lparr> encoder_layers = [le] \<rparr>" \<sigma> src 1 1 "sub 0 ctx"] enc assms(1) by blast
  obtain xt where xt: "iadd (\<sigma> tgt) (position_encoding (size1 (\<sigma> tgt)) (size2 (\<sigma> tgt))) = Inr xt"
      "shape xt = shape (\<sigma> tgt)"
      "\<forall>b<size0 (\<sigma> tgt). \<forall>i<size1 (\<sigma> tgt). \<forall>j<size2 (\<sigma> tgt).
         elem xt b i j = elem (\<sigma> tgt) b i j + (if even j then sin 1 else cos 1)"
    using iadd_position_encoding [of "\<sigma> tgt"] by blast
  have sz: "0 < size0 (\<sigma> tgt)" "0 < size1 (\<sigma> tgt)" "0 < size2 (\<sigma> tgt)" "1 < size2 (\<sigma> tgt)"
    using assms(2) by (simp_all add: shape_eq)
  have "elem xt 0 0 0 = elem (\<sigma> tgt) 0 0 0 + sin 1" "elem xt 0 0 1 = elem (\<sigma> tgt) 0 0 1 + cos 1"
    using xt(3) sz by auto
  then have sp: "spread xt = spread (\<sigma> tgt) + (sin 1 - cos 1) / 2"
    by (simp add: spread_def field_simps)
  have sxt: "shape xt = (1, 1, 2)"
    using xt(2) assms(2) by simp
  let ?\<sigma>' = "\<sigma>(src := xs, tgt := xt)"
  have smem: "shape (deref ?\<sigma>' m) = (1, 1, 2)"
    using m(1,3) assms(3) by auto
  have zp: "child 0 (child 1 probe_params) path = ((\<lambda>_ _. 0), (\<lambda>_. 0))" if "path \<noteq> []" for path
    using that by (simp add: child_def probe_params_def)
  obtain t3 where t3: "TransformerDecoderLayer_forward ld (sub 0 (sub 1 ctx)) xt (deref ?\<sigma>' m)
      = Inr t3" "shape t3 = (1, 1, 2)" "elem t3 0 0 0 = squash (squash (squash (spread xt)))"
    using TransformerDecoderLayer_forward_zero [OF ld zp _ sxt smem, of "sub 0 (sub 1 ctx)"]
      assms(4) by auto
  have s3: "size2 t3 = 2" using t3(2) by (simp add: shape_eq)
  let ?y = "\<lparr> size0 = size0 t3, size1 = size1 t3, size2 = 2,
       elem = (\<lambda>b i j. (\<Sum>k<2. elem t3 b i k * fst (probe_params [1, 1]) j k)
                        + snd (probe_params [1, 1]) j) \<rparr>"
  have lin: "Linear_forward ?lin t3 = Inr ?y"
    using s3 by (simp add: Linear_forward_def Linear_init_def child_def)
  have dec: "TransformerDecoder_forward \<lparr> decoder_layers = [ld], decoder_linear = ?lin \<rparr>
      (sub 1 ctx) (\<sigma>(src := xs)) tgt m = (?\<sigma>', Inr (softmax ?y))"
    using xt(1) assms(3) t3(1) lin
    by (simp add: TransformerDecoder_forward_def Let_def)
  have f: "Transformer_forward ?t ctx \<sigma> src tgt = (?\<sigma>', Inr (softmax ?y))"
    unfolding tt using m(2) dec by (simp add: Transformer_forward_def)
  have "elem (softmax ?y) 0 0 0 = logistic (elem t3 0 0 0)"
    by (simp add: softmax_def sums2 probe_params_def logistic_def)
  then show ?thesis
    using f t3(3) sp sxt m(1) assms(3) by simp
qed

text \<open>
  Claim C9 as stated fails when both instances are fed the same two tensors in turn: the
  first forward pass adds the positional encoding to them in place, so the second one
  starts from other values. The models are in evaluation mode and their final projection
  copies channel 0. For a model without layers and all-zero inputs, the first entry of the
  two results is \<open>logistic (sin 1)\<close> and \<open>logistic (2 * sin 1)\<close>. For a model with one
  encoder layer and one decoder layer and the target \<open>[0, 3 * (sin 1 - cos 1) / 2]\<close>, the
  difference of the target's two channels changes sign between the two calls, and the
  first entry of the two results is \<open>logistic (- g)\<close> and \<open>logistic g\<close> for a \<open>g \<noteq> 0\<close>.
\<close>

theorem same_tensors_twice_counterexample:
  "map_sum id (\<lambda>(out1, out2). (elem out1 0 0 0, elem out2 0 0 0))
     (forward_twice (projr (Transformer_init 0 0 2 1 4 (1/10) probe_params))
        (projr (Transformer_init 0 0 2 1 4 (1/10) probe_params)) eval_ctx
        (store2 (full 1 1 2 0) (full 1 1 2 0)) 0 1)
     = Inr (logistic (sin 1), logistic (2 * sin 1)) \<and>
   logistic (sin 1) \<noteq> logistic (2 * sin 1) \<and>
   map_sum id (\<lambda>(out1, out2). (elem out1 0 0 0, elem out2 0 0 0))
     (forward_twice (projr (Transformer_init 1 1 2 1 4 (1/10) probe_params))
        (projr (Transformer_init 1 1 2 1 4 (1/10) probe_params)) eval_ctx
        (store2 (full 1 1 2 0) (one_position 0 (3 * (sin 1 - cos 1) / 2))) 0 1)
     = Inr (logistic (squash (squash (squash (- ((sin 1 - cos 1) / 4))))),
            logistic (squash (squash (squash ((sin 1 - cos 1) / 4))))) \<and>
   logistic (squash (squash (squash (- ((sin 1 - cos 1) / 4)))))
     \<noteq> logistic (squash (squash (squash ((sin 1 - cos 1) / 4))))"
proof -
  let ?t0 = "projr (Transformer_init 0 0 2 1 4 (1/10) probe_params)"
  let ?t1 = "projr (Transformer_init 1 1 2 1 4 (1/10) probe_params)"
  let ?\<sigma> = "store2 (full 1 1 2 0) (full 1 1 2 0)"
  let ?\<tau> = "store2 (full 1 1 2 0) (one_position 0 (3 * (sin 1 - cos 1) / 2))"
  have sh: "shape (?\<sigma> 0) = (1, 1, 2)" "shape (?\<sigma> 1) = (1, 1, 2)"
    and sh': "shape (?\<tau> 0) = (1, 1, 2)" "shape (?\<tau> 1) = (1, 1, 2)"
    by (simp_all add: store2_def full_def one_position_def shape_def)
  have ne: "(0::nat) \<noteq> 1" by simp
  have ev: "\<not> training eval_ctx" by (simp add: eval_ctx_def)
  have z: "elem (?\<sigma> 1) 0 0 0 = 0"
    by (simp add: store2_def full_def)
  have z': "spread (?\<tau> 1) = - (3 * (sin 1 - cos 1) / 4)"
    by (simp add: store2_def one_position_def spread_def)
  have inj: "logistic a = logistic b \<Longrightarrow> a = b" for a b
    unfolding logistic_def by (rule logistic_inj)
  obtain \<sigma>1 out1 where c1: "Transformer_forward ?t0 eval_ctx ?\<sigma> 0 1 = (\<sigma>1, Inr out1)"
      "shape (\<sigma>1 0) = (1, 1, 2)" "shape (\<sigma>1 1) = (1, 1, 2)"
      "elem (\<sigma>1 1) 0 0 0 = elem (?\<sigma> 1) 0 0 0 + sin 1"
      "elem out1 0 0 0 = exp (elem (?\<sigma> 1) 0 0 0 + sin 1) / (exp (elem (?\<sigma> 1) 0 0 0 + sin 1) + 1)"
    using forward_no_layers [OF sh ne, of eval_ctx] by blast
  obtain \<sigma>2 out2 where c2: "Transformer_forward ?t0 eval_ctx \<sigma>1 0 1 = (\<sigma>2, Inr out2)"
      "elem out2 0 0 0 = exp (elem (\<sigma>1 1) 0 0 0 + sin 1) / (exp (elem (\<sigma>1 1) 0 0 0 + sin 1) + 1)"
    using forward_no_layers [OF c1(2,3) ne, of eval_ctx] by blast
  have A: "map_sum id (\<lambda>(out1, out2). (elem out1 0 0 0, elem out2 0 0 0))
      (forward_twice ?t0 ?t0 eval_ctx ?\<sigma> 0 1) = Inr (logistic (sin 1), logistic (2 * sin 1))"
    using c1(1,4,5) c2 z by (simp add: forward_twice_def logistic_def)
  have "sin (1::real) \<noteq> 2 * sin 1" using sin_one_pos by simp
  then have B: "logistic (sin 1) \<noteq> logistic (2 * sin 1)"
    using inj by blast
  let ?k = "(sin 1 - cos 1) / 2 :: real"
  obtain \<tau>1 o1 where d1: "Transformer_forward ?t1 eval_ctx ?\<tau> 0 1 = (\<tau>1, Inr o1)"
      "shape (\<tau>1 0) = (1, 1, 2)" "shape (\<tau>1 1) = (1, 1, 2)"
      "spread (\<tau>1 1) = spread (?\<tau> 1) + ?k"
      "elem o1 0 0 0 = logistic (squash (squash (squash (spread (?\<tau> 1) + ?k))))"
    using forward_one_layer [OF sh' ne ev] by blast
  obtain \<tau>2 o2 where d2: "Transformer_forward ?t1 eval_ctx \<tau>1 0 1 = (\<tau>2, Inr o2)"
      "elem o2 0 0 0 = logistic (squash (squash (squash (spread (\<tau>1 1) + ?k))))"
    using forward_one_layer [OF d1(2,3) ne ev] by blast
  have k1: "spread (?\<tau> 1) + ?k = - ((sin 1 - cos 1) / 4)"
    and k2: "spread (\<tau>1 1) + ?k = (sin 1 - cos 1) / 4"
    unfolding d1(4) z' by (simp_all add: field_simps)
  have C: "map_sum id (\<lambda>(out1, out2). (elem out1 0 0 0, elem out2 0 0 0))
      (forward_twice ?t1 ?t1 eval_ctx ?\<tau> 0 1)
      = Inr (logistic (squash (squash (squash (- ((sin 1 - cos 1) / 4))))),
             logistic (squash (squash (squash ((sin 1 - cos 1) / 4)))))"
    using d1(1,5) d2 unfolding k1 k2 by (simp add: forward_twice_def)
  have "sin 1 - cos 1 \<noteq> (0::real)"
    using sin_one_neq_cos_one by simp
  moreover have "- (x / 4) \<noteq> x / 4" if "x \<noteq> 0" for x :: real
    using that by simp
  ultimately have "- ((sin 1 - cos 1) / 4) \<noteq> ((sin 1 - cos 1) / 4 :: real)"
    by blast
  then have D: "logistic (squash (squash (squash (- ((sin 1 - cos 1) / 4)))))
      \<noteq> logistic (squash (squash (squash ((sin 1 - cos 1) / 4))))"
    using inj squash_inj by blast
  from A B C D show ?thesis by blast
qed

end
